theory Spec2Isabelle
  imports Main
begin

section \<open>Errors\<close>

text \<open>
  The handlers raise \<open>UnsupportedError\<close> and \<open>DuplicatedError\<close> (lib/errors), plain
  \<open>Error\<close> objects, and JavaScript's own \<open>TypeError\<close> on a property read of
  \<open>undefined\<close>. An error that the peer connection, an SDP collaborator or the
  \<open>@connect\<close> listener raises is \<open>Rejected\<close> with its message.
\<close>

datatype error =
    UnsupportedError string
  | DuplicatedError string
  | Error string
  | TypeError string
  | Rejected string

section \<open>Media objects\<close>

datatype media_kind = Audio | Video

fun kind_str :: "media_kind \<Rightarrow> string" where
  "kind_str Audio = ''audio''"
| "kind_str Video = ''video''"

record track =
  track_id :: string
  track_kind :: media_kind

text \<open>An entry of \<open>RTCRtpSendParameters.encodings\<close> as \<open>send()\<close> builds it.\<close>

record encoding =
  rid :: string
  active :: bool
  priority :: string
  maxBitrate :: nat

text \<open>What the handlers read of an \<open>RTCRtpSender\<close>: its track and \<open>getParameters().encodings\<close>.\<close>

record sender =
  sn_id :: nat
  sn_track :: "track option"
  sn_encodings :: "encoding list"

record transceiver =
  tr_id :: nat
  tr_mid :: "string option"
  tr_direction :: string
  tr_sender :: sender
  tr_receiver_track :: track

record receiver =
  rc_id :: nat
  rc_track :: "track option"

text \<open>The \<open>simulcast\<close> option of \<open>send()\<close>: a maximum bitrate per layer, each optional.\<close>

record simulcast =
  low :: "nat option"
  medium :: "nat option"
  high :: "nat option"

text \<open>JavaScript truthiness of an optional number: \<open>undefined\<close> and \<open>0\<close> are falsy.\<close>

fun truthy :: "nat option \<Rightarrow> bool" where
  "truthy None = False"
| "truthy (Some n) = (n \<noteq> 0)"

record ice_parameters =
  iceLite :: bool
  password :: string
  usernameFragment :: string

section \<open>RTP capabilities and parameters\<close>

datatype param_value = PNum int | PStr string

record rtcp_feedback =
  fb_type :: string
  fb_parameter :: "string option"

record codec_capability =
  name :: string
  mimeType :: string
  kind :: media_kind
  clockRate :: nat
  preferredPayloadType :: nat
  channels :: "nat option"
  rtcpFeedback :: "rtcp_feedback list"
  parameters :: "(string \<times> param_value) list"

record header_extension_capability =
  ext_kind :: media_kind
  uri :: string
  preferredId :: nat
  preferredEncrypt :: bool

record rtp_capabilities =
  codecs :: "codec_capability list"
  headerExtensions :: "header_extension_capability list"
  fecMechanisms :: "string list"

record rtp_codec =
  rc_name :: string
  rc_mimeType :: string
  rc_clockRate :: nat
  rc_payloadType :: nat
  rc_channels :: "nat option"
  rc_rtcpFeedback :: "rtcp_feedback list"
  rc_parameters :: "(string \<times> param_value) list"

record rtp_header_extension =
  he_uri :: string
  he_id :: nat

record rtp_encoding =
  ssrc :: nat
  rtx_ssrc :: "nat option"

record rtp_parameters =
  rp_codecs :: "rtp_codec list"
  rp_headerExtensions :: "rtp_header_extension list"
  rp_encodings :: "rtp_encoding list"
  rp_cname :: string

section \<open>The external collaborators\<close>

text \<open>
  A session description handed to the peer connection. The handlers pass either an
  awaited description or, where the source does not \<open>await\<close> \<open>createOffer()\<close> /
  \<open>createAnswer()\<close>, the pending promise itself.
\<close>

datatype description = Offer | Answer | PromiseOfOffer | PromiseOfAnswer

text \<open>
  Every call a handler makes on the \<open>RTCPeerConnection\<close>, on its senders, receivers and
  transceivers, on the SDP collaborators (\<open>sdp-transform\<close>, \<open>sdp/commonUtils\<close>, the remote
  SDP builder, the \<open>fillRtpParametersForTrack\<close> utilities), and the upward
  \<open>safeEmitAsPromise('@connect', ...)\<close>.
\<close>

datatype ext_call =
    PcClose
  | PcGetStats
  | PcGetConfiguration
  | PcSetConfiguration "string list"
  | CreateOffer bool
  | CreateAnswer
  | SetLocalDescription description
  | SetRemoteDescription description
  | AddTransceiver track string
  | SetDirection nat string
  | AddTrack track
  | RemoveTrack "nat option"
  | SenderSetParameters nat "encoding list"
  | SenderReplaceTrack nat track
  | SenderGetStats nat
  | ReceiverGetStats nat
  | UpdateTransportRemoteIceParameters ice_parameters
  | CreateOfferSdp
  | CreateAnswerSdp
  | ParseLocalSdp
  | ExtractDtlsParameters
  | FillRtpParametersForTrack track
  | EmitConnect "string option"

text \<open>
  The collaborators are outside the repository's handlers: their behaviour is a
  parameter. \<open>exec\<close> performs a call on the outside world \<open>'w\<close> and either succeeds or
  raises (\<open>Some message\<close>); \<open>addTransceiver\<close> and \<open>addTrack\<close> also return the new object;
  the remaining fields are the reads the handlers make.
\<close>

record 'w env =
  exec :: "ext_call \<Rightarrow> 'w \<Rightarrow> string option \<times> 'w"
  addTransceiver :: "track \<Rightarrow> string \<Rightarrow> 'w \<Rightarrow> (string + transceiver) \<times> 'w"
  addTrack :: "track \<Rightarrow> 'w \<Rightarrow> (string + sender) \<times> 'w"
  getTransceivers :: "'w \<Rightarrow> transceiver list"
  getSenders :: "'w \<Rightarrow> sender list"
  getReceivers :: "'w \<Rightarrow> receiver list"
  signalingState :: "'w \<Rightarrow> string"

section \<open>Operations as state transformers that may raise\<close>

text \<open>
  One line of the log per external call: the call, whether it raised, and whether the
  handler waited for its result (\<open>await\<close>, or a synchronous call) or dropped the promise.
\<close>

record entry =
  call :: ext_call
  outcome :: "string option"
  awaited :: bool

record ('h, 'w) st =
  self :: 'h
  world :: 'w
  trace :: "entry list"

type_synonym ('h, 'w, 'a) op = "('h, 'w) st \<Rightarrow> (error + 'a) \<times> ('h, 'w) st"

definition succeed :: "'a \<Rightarrow> ('h, 'w, 'a) op" where
  "succeed x = (\<lambda>s. (Inr x, s))"

definition throw :: "error \<Rightarrow> ('h, 'w, 'a) op" where
  "throw e = (\<lambda>s. (Inl e, s))"

definition andThen :: "('h, 'w, 'a) op \<Rightarrow> ('a \<Rightarrow> ('h, 'w, 'b) op) \<Rightarrow> ('h, 'w, 'b) op" where
  "andThen m f = (\<lambda>s. case m s of (Inl e, s') \<Rightarrow> (Inl e, s') | (Inr x, s') \<Rightarrow> f x s')"

text \<open>\<open>try { m } catch (error) { h error }\<close>\<close>

definition tryCatch :: "('h, 'w, 'a) op \<Rightarrow> (error \<Rightarrow> ('h, 'w, 'a) op) \<Rightarrow> ('h, 'w, 'a) op" where
  "tryCatch m h = (\<lambda>s. case m s of (Inl e, s') \<Rightarrow> h e s' | (Inr x, s') \<Rightarrow> (Inr x, s'))"

text \<open>
  \<open>try { x = m } catch (error) { h error }\<close> followed by \<open>k x\<close>, where the \<open>catch\<close> block
  ends the function (it returns or raises).
\<close>

definition onResult ::
  "('h, 'w, 'a) op \<Rightarrow> (error \<Rightarrow> ('h, 'w, 'b) op) \<Rightarrow> ('a \<Rightarrow> ('h, 'w, 'b) op) \<Rightarrow> ('h, 'w, 'b) op" where
  "onResult m h k = (\<lambda>s. case m s of (Inl e, s') \<Rightarrow> h e s' | (Inr x, s') \<Rightarrow> k x s')"

text \<open>\<open>try { m } catch (error) {}\<close>\<close>

definition attempt :: "('h, 'w, 'a) op \<Rightarrow> ('h, 'w, unit) op" where
  "attempt m = (\<lambda>s. (Inr (), snd (m s)))"

text \<open>Statements in sequence: the first one that raises ends the sequence.\<close>

definition steps :: "('h, 'w, unit) op list \<Rightarrow> ('h, 'w, unit) op" where
  "steps ms = foldr (\<lambda>m k. andThen m (\<lambda>_. k)) ms (succeed ())"

text \<open>An assignment to a field of \<open>this\<close>.\<close>

definition assign :: "('h \<Rightarrow> 'h) \<Rightarrow> ('h, 'w, unit) op" where
  "assign f = (\<lambda>s. (Inr (), s\<lparr>self := f (self s)\<rparr>))"

definition logged :: "ext_call \<Rightarrow> string option \<Rightarrow> bool \<Rightarrow> 'w \<Rightarrow> ('h, 'w) st \<Rightarrow> ('h, 'w) st" where
  "logged c r a w s = s\<lparr>world := w, trace := trace s @ [\<lparr>call = c, outcome = r, awaited = a\<rparr>]\<rparr>"

text \<open>An external call whose result the handler waits for: a failure is raised here.\<close>

definition await :: "'w env \<Rightarrow> ext_call \<Rightarrow> ('h, 'w, unit) op" where
  "await E c = (\<lambda>s. case exec E c (world s) of
       (None, w) \<Rightarrow> (Inr (), logged c None True w s)
     | (Some m, w) \<Rightarrow> (Inl (Rejected m), logged c (Some m) True w s))"

text \<open>
  An asynchronous call whose promise is not awaited: the call is made, the handler goes
  on with the pending promise and never sees a rejection.
\<close>

definition detached :: "'w env \<Rightarrow> ext_call \<Rightarrow> ('h, 'w, unit) op" where
  "detached E c = (\<lambda>s. case exec E c (world s) of (r, w) \<Rightarrow> (Inr (), logged c r False w s))"

definition awaitAddTransceiver :: "'w env \<Rightarrow> track \<Rightarrow> string \<Rightarrow> ('h, 'w, transceiver) op" where
  "awaitAddTransceiver E t d = (\<lambda>s. case addTransceiver E t d (world s) of
       (Inr tr, w) \<Rightarrow> (Inr tr, logged (AddTransceiver t d) None True w s)
     | (Inl m, w) \<Rightarrow> (Inl (Rejected m), logged (AddTransceiver t d) (Some m) True w s))"

definition awaitAddTrack :: "'w env \<Rightarrow> track \<Rightarrow> ('h, 'w, sender) op" where
  "awaitAddTrack E t = (\<lambda>s. case addTrack E t (world s) of
       (Inr sn, w) \<Rightarrow> (Inr sn, logged (AddTrack t) None True w s)
     | (Inl m, w) \<Rightarrow> (Inl (Rejected m), logged (AddTrack t) (Some m) True w s))"

section \<open>Handler (both engines)\<close>

text \<open>
  The fields of the \<open>Handler\<close> base class that the operations read or write. Both files
  declare the same class; the subclasses extend it.
\<close>

record handler_base =
  transportReady :: bool
  sendingRtpParametersByKind :: "media_kind \<Rightarrow> rtp_parameters"

text \<open>\<open>close()\<close>: \<open>try { this._pc.close(); } catch (error) {}\<close>\<close>

definition close :: "'w env \<Rightarrow> ('h, 'w, unit) op" where
  "close E = attempt (await E PcClose)"

definition getTransportStats :: "'w env \<Rightarrow> ('h, 'w, unit) op" where
  "getTransportStats E = await E PcGetStats"

text \<open>Firefox60 \<open>updateIceServers\<close>: Firefox does not implement \<open>pc.setConfiguration()\<close>.\<close>

definition ff_updateIceServers :: "'w env \<Rightarrow> string list \<Rightarrow> ('h, 'w, unit) op" where
  "ff_updateIceServers E iceServers = throw (UnsupportedError ''not supported'')"

definition sf_updateIceServers :: "'w env \<Rightarrow> string list \<Rightarrow> ('h, 'w, unit) op" where
  "sf_updateIceServers E iceServers =
     steps [await E PcGetConfiguration, await E (PcSetConfiguration iceServers)]"

text \<open>
  \<open>_setupTransport({ localDtlsRole })\<close>: read the local DTLS parameters from the local
  description, overwrite the role when one is given, tell the remote transport with
  \<open>@connect\<close>, and only then set \<open>_transportReady\<close>.
\<close>

definition setupTransport :: "'w env \<Rightarrow> string option \<Rightarrow> ('z handler_base_scheme, 'w, unit) op" where
  "setupTransport E localDtlsRole =
     steps [await E ParseLocalSdp,
            await E ExtractDtlsParameters,
            await E (EmitConnect (case localDtlsRole of
                                    None \<Rightarrow> None
                                  | Some r \<Rightarrow> if r = [] then None else Some r)),
            assign (\<lambda>h. h\<lparr>transportReady := True\<rparr>)]"


text \<open>\<open>if (!this._transportReady) await m\<close>\<close>

definition unlessReady :: "('z handler_base_scheme, 'w, unit) op \<Rightarrow> ('z handler_base_scheme, 'w, unit) op" where
  "unlessReady m = (\<lambda>s. if \<not> transportReady (self s) then m s else (Inr (), s))"

text \<open>\<open>this._pc.getSenders().find((s) => s.track === track)\<close>\<close>

definition findSender :: "'w env \<Rightarrow> track \<Rightarrow> ('h, 'w) st \<Rightarrow> sender option" where
  "findSender E t s = find (\<lambda>sn. sn_track sn = Some t) (getSenders E (world s))"

text \<open>\<open>getSenderStats({ track })\<close>, the same in both files.\<close>

definition getSenderStats :: "'w env \<Rightarrow> track \<Rightarrow> ('h, 'w, unit) op" where
  "getSenderStats E t = (\<lambda>s. case findSender E t s of
       None \<Rightarrow> throw (Error ''local track not found'') s
     | Some rtpSender \<Rightarrow> await E (SenderGetStats (sn_id rtpSender)) s)"

text \<open>
  \<open>SendHandler.restartIce\<close>, the same in both files. \<open>createOffer({ iceRestart: true })\<close>
  is not awaited there, so \<open>setLocalDescription\<close> receives the promise.
\<close>

definition send_restartIce :: "'w env \<Rightarrow> ice_parameters \<Rightarrow> ('z handler_base_scheme, 'w, unit) op" where
  "send_restartIce E remoteIceParameters =
     andThen (await E (UpdateTransportRemoteIceParameters remoteIceParameters)) (\<lambda>_. \<lambda>s.
       if \<not> transportReady (self s) then (Inr (), s)
       else steps [detached E (CreateOffer True),
                   await E (SetLocalDescription PromiseOfOffer),
                   await E ParseLocalSdp,
                   await E CreateAnswerSdp,
                   await E (SetRemoteDescription Answer)] s)"

text \<open>A JavaScript \<open>Map\<close> with string keys, in insertion order.\<close>

fun map_has :: "string \<Rightarrow> (string \<times> 'v) list \<Rightarrow> bool" where
  "map_has k [] = False"
| "map_has k ((k', v) # m) = (k' = k \<or> map_has k m)"

fun map_get :: "string \<Rightarrow> (string \<times> 'v) list \<Rightarrow> 'v option" where
  "map_get k [] = None"
| "map_get k ((k', v) # m) = (if k' = k then Some v else map_get k m)"

fun map_set :: "string \<Rightarrow> 'v \<Rightarrow> (string \<times> 'v) list \<Rightarrow> (string \<times> 'v) list" where
  "map_set k v [] = [(k, v)]"
| "map_set k v ((k', v') # m) = (if k' = k then (k, v) # m else (k', v') # map_set k v m)"

fun map_delete :: "string \<Rightarrow> (string \<times> 'v) list \<Rightarrow> (string \<times> 'v) list" where
  "map_delete k [] = []"
| "map_delete k ((k', v) # m) = (if k' = k then map_delete k m else (k', v) # map_delete k m)"

section \<open>Firefox60: SendHandler\<close>

record ff_send = handler_base +
  tracks :: "track set"
  nextRid :: nat

text \<open>The decimal digits of a number, as a template literal prints \<open>${this._nextRid}\<close>.\<close>

fun string_of_nat :: "nat \<Rightarrow> string" where
  "string_of_nat n =
     (if n < 10 then [char_of (48 + n)]
      else string_of_nat (n div 10) @ [char_of (48 + n mod 10)])"

declare string_of_nat.simps [simp del]

text \<open>One \<open>if (simulcast.<layer>) encodings.push({...})\<close> of \<open>send()\<close>.\<close>

fun layer :: "string \<Rightarrow> string \<Rightarrow> nat \<Rightarrow> nat option \<Rightarrow> encoding list" where
  "layer nm prio n None = []"
| "layer nm prio n (Some b) =
     (if b = 0 then []
      else [\<lparr>rid = nm @ string_of_nat n, active = True, priority = prio, maxBitrate = b\<rparr>])"

definition simulcast_encodings :: "simulcast \<Rightarrow> nat \<Rightarrow> encoding list" where
  "simulcast_encodings sc n =
     layer ''low'' ''high'' n (low sc) @
     layer ''medium'' ''medium'' n (medium sc) @
     layer ''high'' ''low'' n (high sc)"

text \<open>
  The body of the \<open>try\<close> block of \<open>send()\<close> once \<open>transceiver\<close> is bound: the simulcast
  encodings (the counter is bumped before \<open>setParameters\<close> is awaited), the offer/answer
  round, and the registration of the track.
\<close>

definition ff_send_negotiate ::
  "'w env \<Rightarrow> track \<Rightarrow> simulcast option \<Rightarrow> transceiver \<Rightarrow> (ff_send, 'w, rtp_parameters) op" where
  "ff_send_negotiate E t simulcast transceiver =
     andThen (case simulcast of
                None \<Rightarrow> succeed ()
              | Some sc \<Rightarrow> (\<lambda>s.
                  steps [assign (\<lambda>h. h\<lparr>nextRid := nextRid h + 1\<rparr>),
                         await E (SenderSetParameters (sn_id (tr_sender transceiver))
                                    (simulcast_encodings sc (nextRid (self s))))] s)) (\<lambda>_.
     andThen (steps [await E (CreateOffer False),
                     await E (SetLocalDescription Offer),
                     unlessReady (setupTransport E (Some ''client'')),
                     await E ParseLocalSdp,
                     await E CreateAnswerSdp,
                     await E (SetRemoteDescription Answer),
                     await E (FillRtpParametersForTrack t),
                     assign (\<lambda>h. h\<lparr>tracks := insert t (tracks h)\<rparr>)]) (\<lambda>_. \<lambda>s.
       (Inr (sendingRtpParametersByKind (self s) (track_kind t)), s)))"

text \<open>The \<open>catch\<close> block of \<open>send()\<close> with \<open>transceiver\<close> bound.\<close>

definition ff_send_undo :: "'w env \<Rightarrow> transceiver \<Rightarrow> error \<Rightarrow> (ff_send, 'w, rtp_parameters) op" where
  "ff_send_undo E transceiver e =
     andThen (attempt (await E (SetDirection (tr_id transceiver) ''inactive''))) (\<lambda>_. throw e)"

text \<open>
  \<open>send({ track, simulcast })\<close>. When \<open>addTransceiver\<close> raises, \<open>transceiver\<close> is still
  \<open>undefined\<close> in the \<open>catch\<close> block: the assignment to its \<open>direction\<close> raises a
  \<open>TypeError\<close> that is dropped, and the first error is raised again.
\<close>

definition ff_send :: "'w env \<Rightarrow> track \<Rightarrow> simulcast option \<Rightarrow> (ff_send, 'w, rtp_parameters) op" where
  "ff_send E t simulcast = (\<lambda>s.
     if t \<in> tracks (self s) then throw (DuplicatedError ''track already handled'') s
     else (case find (\<lambda>tr. track_kind (tr_receiver_track tr) = track_kind t \<and>
                            tr_direction tr = ''inactive'') (getTransceivers E (world s)) of
             Some transceiver \<Rightarrow>
               tryCatch
                 (andThen (steps [await E (SetDirection (tr_id transceiver) ''sendonly''),
                                  await E (SenderSetParameters (sn_id (tr_sender transceiver)) []),
                                  await E (SenderReplaceTrack (sn_id (tr_sender transceiver)) t)])
                    (\<lambda>_. ff_send_negotiate E t simulcast transceiver))
                 (ff_send_undo E transceiver) s
           | None \<Rightarrow>
               andThen (awaitAddTransceiver E t ''sendonly'') (\<lambda>transceiver.
                 tryCatch (ff_send_negotiate E t simulcast transceiver)
                          (ff_send_undo E transceiver)) s))"

definition ff_stopSending :: "'w env \<Rightarrow> track \<Rightarrow> (ff_send, 'w, unit) op" where
  "ff_stopSending E t = (\<lambda>s. case findSender E t s of
       None \<Rightarrow> throw (Error ''local track not found'') s
     | Some rtpSender \<Rightarrow>
         steps [await E (RemoveTrack (Some (sn_id rtpSender))),
                await E (CreateOffer False),
                await E (SetLocalDescription Offer),
                await E ParseLocalSdp,
                await E CreateAnswerSdp,
                assign (\<lambda>h. h\<lparr>tracks := tracks h - {t}\<rparr>),
                await E (SetRemoteDescription Answer)] s)"

definition ff_replaceTrack :: "'w env \<Rightarrow> track \<Rightarrow> track \<Rightarrow> (ff_send, 'w, unit) op" where
  "ff_replaceTrack E t newTrack = (\<lambda>s.
     if newTrack \<in> tracks (self s) then throw (DuplicatedError ''track already handled'') s
     else (case findSender E t s of
             None \<Rightarrow> throw (Error ''local track not found'') s
           | Some rtpSender \<Rightarrow>
               steps [await E (SenderReplaceTrack (sn_id rtpSender) newTrack),
                      assign (\<lambda>h. h\<lparr>tracks := tracks h - {t}\<rparr>),
                      assign (\<lambda>h. h\<lparr>tracks := insert newTrack (tracks h)\<rparr>)] s))"

text \<open>\<open>enc && (enc.active = b)\<close> for \<open>enc = parameters.encodings[i]\<close>.\<close>

definition setActive :: "nat \<Rightarrow> bool \<Rightarrow> encoding list \<Rightarrow> encoding list" where
  "setActive i b encs = (if i < length encs then encs[i := (encs ! i)\<lparr>active := b\<rparr>] else encs)"

text \<open>The \<open>switch (spatialLayer)\<close> of \<open>setMaxSpatialLayer\<close>; any other value changes nothing.\<close>

definition switchSpatialLayer :: "string \<Rightarrow> encoding list \<Rightarrow> encoding list" where
  "switchSpatialLayer spatialLayer encs =
     (if spatialLayer = ''low'' then
        setActive 2 False (setActive 1 False (setActive 0 True encs))
      else if spatialLayer = ''medium'' then
        setActive 2 False (setActive 1 True (setActive 0 True encs))
      else if spatialLayer = ''high'' then
        setActive 2 True (setActive 1 True (setActive 0 True encs))
      else encs)"

definition ff_setMaxSpatialLayer :: "'w env \<Rightarrow> track \<Rightarrow> string \<Rightarrow> (ff_send, 'w, unit) op" where
  "ff_setMaxSpatialLayer E t spatialLayer = (\<lambda>s. case findSender E t s of
       None \<Rightarrow> throw (Error ''local track not found'') s
     | Some rtpSender \<Rightarrow>
         await E (SenderSetParameters (sn_id rtpSender)
                    (switchSpatialLayer spatialLayer (sn_encodings rtpSender))) s)"

section \<open>Firefox60: RecvHandler\<close>

record ff_receiver_info =
  ri_mid :: string
  ri_kind :: media_kind
  ri_closed :: bool
  ri_streamId :: string
  ri_trackId :: string
  ri_rtpParameters :: rtp_parameters

record ff_recv = handler_base +
  receiverInfos :: "(string \<times> ff_receiver_info) list"

definition ff_receive :: "'w env \<Rightarrow> string \<Rightarrow> media_kind \<Rightarrow> rtp_parameters \<Rightarrow> (ff_recv, 'w, track) op" where
  "ff_receive E id' kind' rtpParameters = (\<lambda>s.
     if map_has id' (receiverInfos (self s))
     then throw (DuplicatedError ''already receiving this source'') s
     else (let receiverInfo =
                 \<lparr>ri_mid = take 1 (kind_str kind') @ ''-'' @ id',
                  ri_kind = kind',
                  ri_closed = False,
                  ri_streamId = id',
                  ri_trackId = kind_str kind' @ ''-'' @ id',
                  ri_rtpParameters = rtpParameters\<rparr>
           in andThen (assign (\<lambda>h. h\<lparr>receiverInfos := map_set id' receiverInfo (receiverInfos h)\<rparr>)) (\<lambda>_.
              andThen (tryCatch
                         (steps [await E CreateOfferSdp,
                                 await E (SetRemoteDescription Offer)])
                         (\<lambda>e. andThen (assign (\<lambda>h. h\<lparr>receiverInfos := map_delete id' (receiverInfos h)\<rparr>))
                                       (\<lambda>_. throw e))) (\<lambda>_.
              andThen (steps [await E CreateAnswer,
                              await E (SetLocalDescription Answer),
                              unlessReady (setupTransport E (Some ''client''))]) (\<lambda>_. \<lambda>s'.
                case find (\<lambda>tr. tr_mid tr = Some (ri_mid receiverInfo)) (getTransceivers E (world s')) of
                  None \<Rightarrow> throw (Error ''remote track not found'') s'
                | Some transceiver \<Rightarrow> (Inr (tr_receiver_track transceiver), s'))))) s)"

text \<open>
  \<open>stopReceiving({ id })\<close>: the entry stays in the map with \<open>closed = true\<close>;
  \<open>createAnswer()\<close> is not awaited.
\<close>

definition ff_stopReceiving :: "'w env \<Rightarrow> string \<Rightarrow> (ff_recv, 'w, unit) op" where
  "ff_stopReceiving E id' = (\<lambda>s. case map_get id' (receiverInfos (self s)) of
       None \<Rightarrow> throw (Error ''receiver not found'') s
     | Some receiverInfo \<Rightarrow>
         steps [assign (\<lambda>h. h\<lparr>receiverInfos :=
                          map_set id' (receiverInfo\<lparr>ri_closed := True\<rparr>) (receiverInfos h)\<rparr>),
                await E CreateOfferSdp,
                await E (SetRemoteDescription Offer),
                detached E CreateAnswer,
                await E (SetLocalDescription PromiseOfAnswer)] s)"

definition ff_getReceiverStats :: "'w env \<Rightarrow> string \<Rightarrow> (ff_recv, 'w, unit) op" where
  "ff_getReceiverStats E id' = (\<lambda>s. case map_get id' (receiverInfos (self s)) of
       None \<Rightarrow> throw (Error ''receiver not found'') s
     | Some receiverInfo \<Rightarrow>
         (case find (\<lambda>tr. tr_mid tr = Some (ri_mid receiverInfo)) (getTransceivers E (world s)) of
            None \<Rightarrow> throw (Error ''transceiver not found'') s
          | Some transceiver \<Rightarrow> await E (ReceiverGetStats (tr_id transceiver)) s))"

definition ff_recv_restartIce :: "'w env \<Rightarrow> ice_parameters \<Rightarrow> (ff_recv, 'w, unit) op" where
  "ff_recv_restartIce E remoteIceParameters =
     andThen (await E (UpdateTransportRemoteIceParameters remoteIceParameters)) (\<lambda>_. \<lambda>s.
       if \<not> transportReady (self s) then (Inr (), s)
       else steps [await E CreateOfferSdp,
                   await E (SetRemoteDescription Offer),
                   detached E CreateAnswer,
                   await E (SetLocalDescription PromiseOfAnswer)] s)"


section \<open>Safari11: SendHandler\<close>

text \<open>\<open>_stream\<close> is the handler's own \<open>MediaStream\<close>; the model keeps its track set.\<close>

record sf_send = handler_base +
  stream :: "track set"

text \<open>\<open>this._stream.getTrackById(id)\<close> as a condition.\<close>

definition getTrackById :: "track set \<Rightarrow> string \<Rightarrow> bool" where
  "getTrackById S i = (i \<in> track_id ` S)"

definition sf_send_negotiate :: "'w env \<Rightarrow> track \<Rightarrow> (sf_send, 'w, rtp_parameters) op" where
  "sf_send_negotiate E t =
     andThen (steps [await E (CreateOffer False),
                     await E (SetLocalDescription Offer),
                     unlessReady (setupTransport E (Some ''server'')),
                     await E ParseLocalSdp,
                     await E CreateAnswerSdp,
                     await E (SetRemoteDescription Answer),
                     await E (FillRtpParametersForTrack t)]) (\<lambda>_. \<lambda>s.
       (Inr (sendingRtpParametersByKind (self s) (track_kind t)), s))"

text \<open>The \<open>catch\<close> block of \<open>send()\<close>; \<open>rtpSender\<close> is \<open>undefined\<close> when \<open>addTrack\<close> raised.\<close>

definition sf_send_undo :: "'w env \<Rightarrow> track \<Rightarrow> nat option \<Rightarrow> error \<Rightarrow> (sf_send, 'w, rtp_parameters) op" where
  "sf_send_undo E t rtpSender e =
     andThen (steps [assign (\<lambda>h. h\<lparr>stream := stream h - {t}\<rparr>),
                     attempt (await E (RemoveTrack rtpSender))]) (\<lambda>_. throw e)"

text \<open>
  \<open>send({ track, simulcast })\<close>; the \<open>simulcast\<close> argument is not used. The \<open>try\<close>
  block starts at \<open>this._stream.addTrack(track)\<close>.
\<close>

definition sf_send :: "'w env \<Rightarrow> track \<Rightarrow> simulcast option \<Rightarrow> (sf_send, 'w, rtp_parameters) op" where
  "sf_send E t simulcast = (\<lambda>s.
     if getTrackById (stream (self s)) (track_id t)
     then throw (DuplicatedError ''track already added'') s
     else andThen (assign (\<lambda>h. h\<lparr>stream := insert t (stream h)\<rparr>)) (\<lambda>_.
            onResult (awaitAddTrack E t)
              (sf_send_undo E t None)
              (\<lambda>rtpSender. tryCatch (sf_send_negotiate E t)
                                   (sf_send_undo E t (Some (sn_id rtpSender))))) s)"

text \<open>
  \<open>stopSending({ track })\<close>. A \<open>setLocalDescription\<close> failure is ignored when no sending
  track is left ("Failed to create channels"); the round also ends early when the
  signaling state is already \<open>stable\<close>.
\<close>

definition sf_stopSending :: "'w env \<Rightarrow> track \<Rightarrow> (sf_send, 'w, unit) op" where
  "sf_stopSending E t = (\<lambda>s. case findSender E t s of
       None \<Rightarrow> throw (Error ''local track not found'') s
     | Some rtpSender \<Rightarrow>
         andThen (steps [await E (RemoveTrack (Some (sn_id rtpSender))),
                         assign (\<lambda>h. h\<lparr>stream := stream h - {t}\<rparr>),
                         await E (CreateOffer False)]) (\<lambda>_.
           onResult (await E (SetLocalDescription Offer))
             (\<lambda>e s'. if stream (self s') = {} then (Inr (), s') else (Inl e, s'))
             (\<lambda>_ s'. if signalingState E (world s') = ''stable'' then (Inr (), s')
                      else steps [await E ParseLocalSdp,
                                  await E CreateAnswerSdp,
                                  await E (SetRemoteDescription Answer)] s')) s)"

definition sf_replaceTrack :: "'w env \<Rightarrow> track \<Rightarrow> track \<Rightarrow> (sf_send, 'w, unit) op" where
  "sf_replaceTrack E t newTrack = (\<lambda>s.
     if getTrackById (stream (self s)) (track_id newTrack)
     then throw (DuplicatedError ''track already added'') s
     else (case findSender E t s of
             None \<Rightarrow> throw (Error ''local track not found'') s
           | Some rtpSender \<Rightarrow>
               steps [await E (SenderReplaceTrack (sn_id rtpSender) newTrack),
                      assign (\<lambda>h. h\<lparr>stream := stream h - {t}\<rparr>),
                      assign (\<lambda>h. h\<lparr>stream := insert newTrack (stream h)\<rparr>)] s))"

definition sf_setMaxSpatialLayer :: "'w env \<Rightarrow> track \<Rightarrow> string \<Rightarrow> (sf_send, 'w, unit) op" where
  "sf_setMaxSpatialLayer E t spatialLayer = throw (UnsupportedError ''not supported'')"

section \<open>Safari11: RecvHandler\<close>

record sf_receiver_info =
  si_kind :: media_kind
  si_streamId :: string
  si_trackId :: string
  si_ssrc :: nat
  si_cname :: string
  si_rtxSsrc :: "nat option"

record sf_recv = handler_base +
  kinds :: "media_kind set"
  sf_receiverInfos :: "(string \<times> sf_receiver_info) list"

text \<open>
  \<open>receive()\<close> tests \<open>this._transportUpdated\<close>, a property that no constructor and no
  method of the class ever assigns: reading it gives \<open>undefined\<close>.
\<close>

definition transportUpdated :: "sf_recv \<Rightarrow> bool" where
  "transportUpdated h = False"

definition sf_receive :: "'w env \<Rightarrow> string \<Rightarrow> media_kind \<Rightarrow> rtp_parameters \<Rightarrow> (sf_recv, 'w, track) op" where
  "sf_receive E id' kind' rtpParameters = (\<lambda>s.
     if map_has id' (sf_receiverInfos (self s))
     then throw (DuplicatedError ''already receiving this source'') s
     else (case rp_encodings rtpParameters of
             [] \<Rightarrow> throw (TypeError ''encoding is undefined'') s
           | encoding # _ \<Rightarrow>
              (let receiverInfo =
                     \<lparr>si_kind = kind',
                      si_streamId = id',
                      si_trackId = kind_str kind' @ ''-'' @ id',
                      si_ssrc = ssrc encoding,
                      si_cname = rp_cname rtpParameters,
                      si_rtxSsrc = (if truthy (rtx_ssrc encoding) then rtx_ssrc encoding else None)\<rparr>
               in andThen (steps [assign (\<lambda>h. h\<lparr>sf_receiverInfos := map_set id' receiverInfo (sf_receiverInfos h)\<rparr>),
                                  assign (\<lambda>h. h\<lparr>kinds := insert kind' (kinds h)\<rparr>),
                                  await E CreateOfferSdp]) (\<lambda>_.
                  andThen (tryCatch
                             (await E (SetRemoteDescription Offer))
                             (\<lambda>e. andThen (assign (\<lambda>h. h\<lparr>sf_receiverInfos := map_delete id' (sf_receiverInfos h)\<rparr>))
                                           (\<lambda>_. throw e))) (\<lambda>_.
                  andThen (steps [await E CreateAnswer,
                                  await E (SetLocalDescription Answer),
                                  (\<lambda>s'. if \<not> transportUpdated (self s')
                                         then setupTransport E (Some ''client'') s'
                                         else (Inr (), s'))]) (\<lambda>_. \<lambda>s'.
                    case find (\<lambda>r. case rc_track r of
                                      None \<Rightarrow> False
                                    | Some tk \<Rightarrow> track_id tk = si_trackId receiverInfo)
                              (getReceivers E (world s')) of
                      None \<Rightarrow> throw (Error ''remote track not found'') s'
                    | Some newRtpReceiver \<Rightarrow>
                        (case rc_track newRtpReceiver of
                           None \<Rightarrow> throw (Error ''remote track not found'') s'
                         | Some tk \<Rightarrow> (Inr tk, s')))))) s))"

text \<open>\<open>stopReceiving({ id })\<close>: the entry is deleted first; \<open>createAnswer()\<close> is not awaited.\<close>

definition sf_stopReceiving :: "'w env \<Rightarrow> string \<Rightarrow> (sf_recv, 'w, unit) op" where
  "sf_stopReceiving E id' = (\<lambda>s.
     if \<not> map_has id' (sf_receiverInfos (self s)) then throw (Error ''source not found'') s
     else steps [assign (\<lambda>h. h\<lparr>sf_receiverInfos := map_delete id' (sf_receiverInfos h)\<rparr>),
                 await E CreateOfferSdp,
                 await E (SetRemoteDescription Offer),
                 detached E CreateAnswer,
                 await E (SetLocalDescription PromiseOfAnswer)] s)"

definition sf_getReceiverStats :: "'w env \<Rightarrow> string \<Rightarrow> (sf_recv, 'w, unit) op" where
  "sf_getReceiverStats E id' = (\<lambda>s. case map_get id' (sf_receiverInfos (self s)) of
       None \<Rightarrow> throw (Error ''receiver not found'') s
     | Some receiverInfo \<Rightarrow>
         (case find (\<lambda>r. case rc_track r of
                           None \<Rightarrow> False
                         | Some tk \<Rightarrow> track_id tk = si_trackId receiverInfo)
                    (getReceivers E (world s)) of
            None \<Rightarrow> throw (Error ''RTCRtpReceiver not found'') s
          | Some rtpReceiver \<Rightarrow> await E (ReceiverGetStats (rc_id rtpReceiver)) s))"

definition sf_recv_restartIce :: "'w env \<Rightarrow> ice_parameters \<Rightarrow> (sf_recv, 'w, unit) op" where
  "sf_recv_restartIce E remoteIceParameters =
     andThen (await E (UpdateTransportRemoteIceParameters remoteIceParameters)) (\<lambda>_. \<lambda>s.
       if \<not> transportReady (self s) then (Inr (), s)
       else steps [await E CreateOfferSdp,
                   await E (SetRemoteDescription Offer),
                   await E CreateAnswer,
                   await E (SetLocalDescription Answer)] s)"

section \<open>The public interface of the four handler classes\<close>

datatype send_request =
    Send track "simulcast option"
  | StopSending track
  | ReplaceTrack track track
  | SetMaxSpatialLayer track string
  | GetSenderStats track
  | SendRestartIce ice_parameters
  | SendGetTransportStats
  | SendUpdateIceServers "string list"
  | SendClose

datatype recv_request =
    Receive string media_kind rtp_parameters
  | StopReceiving string
  | GetReceiverStats string
  | RecvRestartIce ice_parameters
  | RecvGetTransportStats
  | RecvUpdateIceServers "string list"
  | RecvClose

datatype val = VUnit | VRtpParameters rtp_parameters | VTrack track

definition returning :: "('a \<Rightarrow> val) \<Rightarrow> ('h, 'w, 'a) op \<Rightarrow> ('h, 'w, val) op" where
  "returning f m = andThen m (\<lambda>x. succeed (f x))"

fun ff_send_handler :: "'w env \<Rightarrow> send_request \<Rightarrow> (ff_send, 'w, val) op" where
  "ff_send_handler E (Send t sc) = returning VRtpParameters (ff_send E t sc)"
| "ff_send_handler E (StopSending t) = returning (\<lambda>_. VUnit) (ff_stopSending E t)"
| "ff_send_handler E (ReplaceTrack t n) = returning (\<lambda>_. VUnit) (ff_replaceTrack E t n)"
| "ff_send_handler E (SetMaxSpatialLayer t l) = returning (\<lambda>_. VUnit) (ff_setMaxSpatialLayer E t l)"
| "ff_send_handler E (GetSenderStats t) = returning (\<lambda>_. VUnit) (getSenderStats E t)"
| "ff_send_handler E (SendRestartIce i) = returning (\<lambda>_. VUnit) (send_restartIce E i)"
| "ff_send_handler E SendGetTransportStats = returning (\<lambda>_. VUnit) (getTransportStats E)"
| "ff_send_handler E (SendUpdateIceServers l) = returning (\<lambda>_. VUnit) (ff_updateIceServers E l)"
| "ff_send_handler E SendClose = returning (\<lambda>_. VUnit) (close E)"

fun sf_send_handler :: "'w env \<Rightarrow> send_request \<Rightarrow> (sf_send, 'w, val) op" where
  "sf_send_handler E (Send t sc) = returning VRtpParameters (sf_send E t sc)"
| "sf_send_handler E (StopSending t) = returning (\<lambda>_. VUnit) (sf_stopSending E t)"
| "sf_send_handler E (ReplaceTrack t n) = returning (\<lambda>_. VUnit) (sf_replaceTrack E t n)"
| "sf_send_handler E (SetMaxSpatialLayer t l) = returning (\<lambda>_. VUnit) (sf_setMaxSpatialLayer E t l)"
| "sf_send_handler E (GetSenderStats t) = returning (\<lambda>_. VUnit) (getSenderStats E t)"
| "sf_send_handler E (SendRestartIce i) = returning (\<lambda>_. VUnit) (send_restartIce E i)"
| "sf_send_handler E SendGetTransportStats = returning (\<lambda>_. VUnit) (getTransportStats E)"
| "sf_send_handler E (SendUpdateIceServers l) = returning (\<lambda>_. VUnit) (sf_updateIceServers E l)"
| "sf_send_handler E SendClose = returning (\<lambda>_. VUnit) (close E)"

fun ff_recv_handler :: "'w env \<Rightarrow> recv_request \<Rightarrow> (ff_recv, 'w, val) op" where
  "ff_recv_handler E (Receive i k p) = returning VTrack (ff_receive E i k p)"
| "ff_recv_handler E (StopReceiving i) = returning (\<lambda>_. VUnit) (ff_stopReceiving E i)"
| "ff_recv_handler E (GetReceiverStats i) = returning (\<lambda>_. VUnit) (ff_getReceiverStats E i)"
| "ff_recv_handler E (RecvRestartIce i) = returning (\<lambda>_. VUnit) (ff_recv_restartIce E i)"
| "ff_recv_handler E RecvGetTransportStats = returning (\<lambda>_. VUnit) (getTransportStats E)"
| "ff_recv_handler E (RecvUpdateIceServers l) = returning (\<lambda>_. VUnit) (ff_updateIceServers E l)"
| "ff_recv_handler E RecvClose = returning (\<lambda>_. VUnit) (close E)"

fun sf_recv_handler :: "'w env \<Rightarrow> recv_request \<Rightarrow> (sf_recv, 'w, val) op" where
  "sf_recv_handler E (Receive i k p) = returning VTrack (sf_receive E i k p)"
| "sf_recv_handler E (StopReceiving i) = returning (\<lambda>_. VUnit) (sf_stopReceiving E i)"
| "sf_recv_handler E (GetReceiverStats i) = returning (\<lambda>_. VUnit) (sf_getReceiverStats E i)"
| "sf_recv_handler E (RecvRestartIce i) = returning (\<lambda>_. VUnit) (sf_recv_restartIce E i)"
| "sf_recv_handler E RecvGetTransportStats = returning (\<lambda>_. VUnit) (getTransportStats E)"
| "sf_recv_handler E (RecvUpdateIceServers l) = returning (\<lambda>_. VUnit) (sf_updateIceServers E l)"
| "sf_recv_handler E RecvClose = returning (\<lambda>_. VUnit) (close E)"

text \<open>A sequence of calls on one handler, each run to its end before the next.\<close>

fun run :: "('r \<Rightarrow> ('h, 'w, val) op) \<Rightarrow> 'r list \<Rightarrow> ('h, 'w) st \<Rightarrow> ('h, 'w) st" where
  "run h [] s = s"
| "run h (r # rs) s = run h rs (snd (h r s))"

text \<open>What an operation added to the log.\<close>

definition since :: "('h, 'w) st \<Rightarrow> ('h, 'w) st \<Rightarrow> entry list" where
  "since s s' = drop (length (trace s)) (trace s')"


section \<open>Constructors\<close>

definition ff_SendHandler :: "(media_kind \<Rightarrow> rtp_parameters) \<Rightarrow> ff_send" where
  "ff_SendHandler ps =
     \<lparr>transportReady = False, sendingRtpParametersByKind = ps, tracks = {}, nextRid = 1\<rparr>"

definition ff_RecvHandler :: "(media_kind \<Rightarrow> rtp_parameters) \<Rightarrow> ff_recv" where
  "ff_RecvHandler ps =
     \<lparr>transportReady = False, sendingRtpParametersByKind = ps, receiverInfos = []\<rparr>"

definition sf_SendHandler :: "(media_kind \<Rightarrow> rtp_parameters) \<Rightarrow> sf_send" where
  "sf_SendHandler ps =
     \<lparr>transportReady = False, sendingRtpParametersByKind = ps, stream = {}\<rparr>"

definition sf_RecvHandler :: "(media_kind \<Rightarrow> rtp_parameters) \<Rightarrow> sf_recv" where
  "sf_RecvHandler ps =
     \<lparr>transportReady = False, sendingRtpParametersByKind = ps, kinds = {}, sf_receiverInfos = []\<rparr>"

definition fresh :: "'h \<Rightarrow> 'w \<Rightarrow> ('h, 'w) st" where
  "fresh h w = \<lparr>self = h, world = w, trace = []\<rparr>"

section \<open>Capability negotiation\<close>

text \<open>
  Modelled from the spec: \<open>lib/ortc.js\<close> (\<open>computeExtendedCapabilities\<close>,
  \<open>getSendingRtpParameters\<close>) is not among the source files; only its callers (the
  handler constructors) and the capability fixtures are. The definitions below follow
  sections 3 and 4.1 of the specification.
\<close>

definition lower_char :: "char \<Rightarrow> char" where
  "lower_char c = (let n = (of_char c :: nat) in if 65 \<le> n \<and> n \<le> 90 then char_of (n + 32) else c)"

text \<open>
  Modelled from the spec: two codecs match if kind, name (case-insensitive), clock rate
  and channel count are equal; the payload type is negotiated, not matched.
\<close>

definition matchCodecs :: "codec_capability \<Rightarrow> codec_capability \<Rightarrow> bool" where
  "matchCodecs a b =
     (kind a = kind b \<and> map lower_char (name a) = map lower_char (name b) \<and>
      clockRate a = clockRate b \<and> channels a = channels b)"

definition isRtx :: "codec_capability \<Rightarrow> bool" where
  "isRtx c = (map lower_char (name c) = ''rtx'')"

record extended_codec =
  localCodec :: codec_capability
  remoteCodec :: codec_capability
  sendPayloadType :: nat
  recvPayloadType :: nat
  sendRtxPayloadType :: "nat option"
  recvRtxPayloadType :: "nat option"

record extended_header_extension =
  xh_kind :: media_kind
  xh_uri :: string
  sendId :: nat
  recvId :: nat

record extended_capabilities =
  x_codecs :: "extended_codec list"
  x_headerExtensions :: "extended_header_extension list"

text \<open>
  Modelled from the spec: the first pass iterates the remote codecs in router-declared
  order and pairs each non-rtx one with the first matching local codec; codecs with no
  match are omitted.
\<close>

definition matchMediaCodecs :: "rtp_capabilities \<Rightarrow> rtp_capabilities \<Rightarrow> extended_codec list" where
  "matchMediaCodecs local remote =
     concat (map (\<lambda>r. case find (\<lambda>l. \<not> isRtx l \<and> matchCodecs l r) (codecs local) of
                         None \<Rightarrow> []
                       | Some l \<Rightarrow> [\<lparr>localCodec = l, remoteCodec = r,
                                      sendPayloadType = preferredPayloadType l,
                                      recvPayloadType = preferredPayloadType r,
                                      sendRtxPayloadType = None,
                                      recvRtxPayloadType = None\<rparr>])
                 (filter (\<lambda>r. \<not> isRtx r) (codecs remote)))"

definition rtxFor :: "rtp_capabilities \<Rightarrow> nat \<Rightarrow> codec_capability option" where
  "rtxFor caps pt =
     find (\<lambda>c. isRtx c \<and> map_of (parameters c) ''apt'' = Some (PNum (int pt))) (codecs caps)"

text \<open>
  Modelled from the spec: the second pass pairs an rtx codec to an entry through its
  \<open>apt\<close> parameter; an rtx entry that cannot be resolved on both sides is dropped.
\<close>

definition pairRtx :: "rtp_capabilities \<Rightarrow> rtp_capabilities \<Rightarrow> extended_codec \<Rightarrow> extended_codec" where
  "pairRtx local remote x =
     (case (rtxFor local (sendPayloadType x), rtxFor remote (recvPayloadType x)) of
        (Some l, Some r) \<Rightarrow> x\<lparr>sendRtxPayloadType := Some (preferredPayloadType l),
                               recvRtxPayloadType := Some (preferredPayloadType r)\<rparr>
      | _ \<Rightarrow> x)"

text \<open>
  Modelled from the spec: header extensions are intersected by URI and kind; the
  receive side takes the router's identifier.
\<close>

definition matchHeaderExtensions ::
  "rtp_capabilities \<Rightarrow> rtp_capabilities \<Rightarrow> extended_header_extension list" where
  "matchHeaderExtensions local remote =
     concat (map (\<lambda>r. case find (\<lambda>l. uri l = uri r \<and> ext_kind l = ext_kind r)
                                 (headerExtensions local) of
                         None \<Rightarrow> []
                       | Some l \<Rightarrow> [\<lparr>xh_kind = ext_kind r, xh_uri = uri r,
                                      sendId = preferredId l, recvId = preferredId r\<rparr>])
                 (headerExtensions remote))"

definition computeExtendedCapabilities ::
  "rtp_capabilities \<Rightarrow> rtp_capabilities \<Rightarrow> extended_capabilities" where
  "computeExtendedCapabilities local remote =
     \<lparr>x_codecs = map (pairRtx local remote) (matchMediaCodecs local remote),
      x_headerExtensions = matchHeaderExtensions local remote\<rparr>"

text \<open>
  Modelled from the spec: every extended codec of the kind becomes one codec entry with
  the send-side payload type and the local capability's feedback and parameters; the
  matched header extensions carry their send-side identifier; no encodings.
\<close>

definition getSendingRtpParameters :: "media_kind \<Rightarrow> extended_capabilities \<Rightarrow> rtp_parameters" where
  "getSendingRtpParameters k extended =
     \<lparr>rp_codecs =
        map (\<lambda>x. \<lparr>rc_name = name (localCodec x),
                   rc_mimeType = mimeType (localCodec x),
                   rc_clockRate = clockRate (localCodec x),
                   rc_payloadType = sendPayloadType x,
                   rc_channels = channels (localCodec x),
                   rc_rtcpFeedback = rtcpFeedback (localCodec x),
                   rc_parameters = parameters (localCodec x)\<rparr>)
            (filter (\<lambda>x. kind (localCodec x) = k) (x_codecs extended)),
      rp_headerExtensions =
        map (\<lambda>h. \<lparr>he_uri = xh_uri h, he_id = sendId h\<rparr>)
            (filter (\<lambda>h. xh_kind h = k) (x_headerExtensions extended)),
      rp_encodings = [],
      rp_cname = []\<rparr>"

text \<open>
  The two opus entries of the capability fixtures: payload type 100 with no feedback
  (\<open>generateRouterRtpCapabilities\<close>) and payload type 111 with \<open>transport-cc\<close>
  (\<open>generateNativeRtpCapabilities\<close>).
\<close>

definition opus100 :: codec_capability where
  "opus100 = \<lparr>name = ''opus'', mimeType = ''audio/opus'', kind = Audio, clockRate = 48000,
              preferredPayloadType = 100, channels = Some 2, rtcpFeedback = [],
              parameters = [(''useinbandfec'', PNum 1), (''foo'', PStr ''bar'')]\<rparr>"

definition opus111 :: codec_capability where
  "opus111 = \<lparr>name = ''opus'', mimeType = ''audio/opus'', kind = Audio, clockRate = 48000,
              preferredPayloadType = 111, channels = Some 2,
              rtcpFeedback = [\<lparr>fb_type = ''transport-cc'', fb_parameter = None\<rparr>],
              parameters = [(''minptime'', PNum 10), (''useinbandfec'', PNum 1)]\<rparr>"

definition onlyCodec :: "codec_capability \<Rightarrow> rtp_capabilities" where
  "onlyCodec c = \<lparr>codecs = [c], headerExtensions = [], fecMechanisms = []\<rparr>"

section \<open>Observations on a run\<close>

text \<open>The \<open>@connect\<close> notifications in a log.\<close>

definition connects :: "entry list \<Rightarrow> entry list" where
  "connects es = filter (\<lambda>e. case call e of EmitConnect _ \<Rightarrow> True | _ \<Rightarrow> False) es"

text \<open>The entries a receiver-info map holds for an id.\<close>

definition entriesFor :: "string \<Rightarrow> (string \<times> 'v) list \<Rightarrow> (string \<times> 'v) list" where
  "entriesFor k m = filter (\<lambda>p. fst p = k) m"

text \<open>The last external call in the log is \<open>c\<close>, and it raised.\<close>

definition failedAt :: "ext_call \<Rightarrow> ('h, 'w) st \<Rightarrow> bool" where
  "failedAt c s =
     (case rev (trace s) of [] \<Rightarrow> False | e # _ \<Rightarrow> call e = c \<and> outcome e \<noteq> None)"

text \<open>The failures in a log that the handler waited for.\<close>

definition swallowed :: "entry list \<Rightarrow> entry list" where
  "swallowed es = filter (\<lambda>e. awaited e \<and> outcome e \<noteq> None) es"

text \<open>The rid values handed to \<open>setParameters\<close> in a log.\<close>

definition assigned_rids :: "entry list \<Rightarrow> string list" where
  "assigned_rids es =
     concat (map (\<lambda>e. case call e of SenderSetParameters _ encs \<Rightarrow> map rid encs | _ \<Rightarrow> []) es)"

text \<open>The layer names of a simulcast option that are set, each followed by the counter.\<close>

definition layerRids :: "simulcast \<Rightarrow> nat \<Rightarrow> string list" where
  "layerRids sc n =
     (if truthy (low sc) then [''low'' @ string_of_nat n] else []) @
     (if truthy (medium sc) then [''medium'' @ string_of_nat n] else []) @
     (if truthy (high sc) then [''high'' @ string_of_nat n] else [])"

section \<open>A scripted outside world\<close>

text \<open>
  An environment whose calls fail exactly when they are listed, and whose reads return
  fixed lists: the inputs at which the theorems below are instantiated.
\<close>

definition newTransceiver :: "track \<Rightarrow> string \<Rightarrow> transceiver" where
  "newTransceiver t d =
     \<lparr>tr_id = 0, tr_mid = None, tr_direction = d,
      tr_sender = \<lparr>sn_id = 0, sn_track = Some t, sn_encodings = []\<rparr>,
      tr_receiver_track = \<lparr>track_id = ''remote'', track_kind = track_kind t\<rparr>\<rparr>"

definition scripted ::
  "ext_call list \<Rightarrow> transceiver list \<Rightarrow> sender list \<Rightarrow> receiver list \<Rightarrow> string \<Rightarrow> unit env" where
  "scripted failing trs sns rcs sig =
     \<lparr>exec = (\<lambda>c w. (if List.member failing c then Some ''failed'' else None, w)),
      addTransceiver = (\<lambda>t d w. (if List.member failing (AddTransceiver t d)
                                  then Inl ''failed'' else Inr (newTransceiver t d), w)),
      addTrack = (\<lambda>t w. (if List.member failing (AddTrack t)
                          then Inl ''failed''
                          else Inr \<lparr>sn_id = 0, sn_track = Some t, sn_encodings = []\<rparr>, w)),
      getTransceivers = (\<lambda>w. trs),
      getSenders = (\<lambda>w. sns),
      getReceivers = (\<lambda>w. rcs),
      signalingState = (\<lambda>w. sig)\<rparr>"

definition noParameters :: "media_kind \<Rightarrow> rtp_parameters" where
  "noParameters k = \<lparr>rp_codecs = [], rp_headerExtensions = [], rp_encodings = [], rp_cname = []\<rparr>"

definition audioTrack :: track where
  "audioTrack = \<lparr>track_id = ''mic'', track_kind = Audio\<rparr>"

definition videoTrack :: track where
  "videoTrack = \<lparr>track_id = ''cam'', track_kind = Video\<rparr>"

text \<open>A sender whose parameters carry three simulcast encodings, all active.\<close>

definition threeLayers :: sender where
  "threeLayers = \<lparr>sn_id = 7, sn_track = Some videoTrack, sn_encodings =
     [\<lparr>rid = ''low1'', active = True, priority = ''high'', maxBitrate = 100000\<rparr>,
      \<lparr>rid = ''medium1'', active = True, priority = ''medium'', maxBitrate = 300000\<rparr>,
      \<lparr>rid = ''high1'', active = True, priority = ''low'', maxBitrate = 1500000\<rparr>]\<rparr>"

text \<open>The remote ICE parameters of the transport fixture.\<close>

definition someIce :: ice_parameters where
  "someIce = \<lparr>iceLite = True, password = ''yku5ej8nvfaor28lvtrabcx0wkrpkztz'',
               usernameFragment = ''h3hk1iz6qqlnqlne''\<rparr>"

text \<open>
  The RTP parameters of the \<open>audio/opus\<close> consumer fixture
  (\<open>generateConsumerRemoteParameters\<close>).
\<close>

definition opusConsumerRtp :: rtp_parameters where
  "opusConsumerRtp =
     \<lparr>rp_codecs = [\<lparr>rc_name = ''opus'', rc_mimeType = ''audio/opus'', rc_clockRate = 48000,
                     rc_payloadType = 100, rc_channels = Some 2, rc_rtcpFeedback = [],
                     rc_parameters = [(''useinbandfec'', PNum 1), (''foo'', PStr ''bar'')]\<rparr>],
      rp_headerExtensions =
        [\<lparr>he_uri = ''urn:ietf:params:rtp-hdrext:ssrc-audio-level'', he_id = 1\<rparr>],
      rp_encodings = [\<lparr>ssrc = 46687003, rtx_ssrc = None\<rparr>],
      rp_cname = ''wB4Ql4lrsxYLjzuN''\<rparr>"

text \<open>
  A world where nothing fails and the peer connection exposes the remote tracks of the
  sources \<open>a\<close> and \<open>b\<close>: as receivers with track ids \<open>audio-a\<close>, \<open>audio-b\<close> (Safari11) and
  as transceivers with mids \<open>a-a\<close>, \<open>a-b\<close> (Firefox60).
\<close>

definition twoSources :: "unit env" where
  "twoSources = scripted []
     [\<lparr>tr_id = 1, tr_mid = Some ''a-a'', tr_direction = ''recvonly'',
       tr_sender = \<lparr>sn_id = 1, sn_track = None, sn_encodings = []\<rparr>,
       tr_receiver_track = \<lparr>track_id = ''audio-a'', track_kind = Audio\<rparr>\<rparr>,
      \<lparr>tr_id = 2, tr_mid = Some ''a-b'', tr_direction = ''recvonly'',
       tr_sender = \<lparr>sn_id = 2, sn_track = None, sn_encodings = []\<rparr>,
       tr_receiver_track = \<lparr>track_id = ''audio-b'', track_kind = Audio\<rparr>\<rparr>]
     []
     [\<lparr>rc_id = 1, rc_track = Some \<lparr>track_id = ''audio-a'', track_kind = Audio\<rparr>\<rparr>,
      \<lparr>rc_id = 2, rc_track = Some \<lparr>track_id = ''audio-b'', track_kind = Audio\<rparr>\<rparr>]
     ''stable''"

text \<open>Handlers that already receive the source \<open>a\<close>, after one successful \<open>receive()\<close>.\<close>

definition sf_receiving_a :: "(sf_recv, unit) st" where
  "sf_receiving_a =
     snd (sf_receive twoSources ''a'' Audio opusConsumerRtp (fresh (sf_RecvHandler noParameters) ()))"

definition ff_receiving_a :: "(ff_recv, unit) st" where
  "ff_receiving_a =
     snd (ff_receive twoSources ''a'' Audio opusConsumerRtp (fresh (ff_RecvHandler noParameters) ()))"

text \<open>
  A world whose peer connection has the given senders and whose listed calls fail, and
  send handlers whose only track is the microphone's.
\<close>

definition micSender :: sender where
  "micSender = \<lparr>sn_id = 3, sn_track = Some audioTrack, sn_encodings = []\<rparr>"

definition sending :: "sender list \<Rightarrow> ext_call list \<Rightarrow> unit env" where
  "sending sns failing = scripted failing [] sns [] ''have-local-offer''"

definition sf_sending_mic :: "(sf_send, unit) st" where
  "sf_sending_mic = fresh ((sf_SendHandler noParameters)\<lparr>stream := {audioTrack}\<rparr>) ()"

definition ff_sending_mic :: "(ff_send, unit) st" where
  "ff_sending_mic = fresh ((ff_SendHandler noParameters)\<lparr>tracks := {audioTrack}\<rparr>) ()"

text \<open>A world in which only the remote description is refused.\<close>

definition refusing :: "description \<Rightarrow> unit env" where
  "refusing d = scripted [SetRemoteDescription d] [] [] [] ''have-local-offer''"

text \<open>Two simulcast sends on one new Firefox60 send handler, with a query in between.\<close>

definition threeBitrates :: simulcast where
  "threeBitrates = \<lparr>low = Some 100000, medium = Some 300000, high = Some 1500000\<rparr>"

definition screenTrack :: track where
  "screenTrack = \<lparr>track_id = ''screen'', track_kind = Video\<rparr>"

definition ff_sent_video :: "(ff_send, unit) st" where
  "ff_sent_video = snd (ff_send (sending [] []) videoTrack (Some threeBitrates)
                          (fresh (ff_SendHandler noParameters) ()))"

definition ff_sent_screen :: "(ff_send, unit) st" where
  "ff_sent_screen = snd (ff_send (sending [] []) screenTrack (Some threeBitrates)
                           (run (ff_send_handler (sending [] [])) [GetSenderStats videoTrack]
                              ff_sent_video))"

text \<open>A Safari11 send handler after one successful \<open>send()\<close>.\<close>

definition sf_sent_video :: "(sf_send, unit) st" where
  "sf_sent_video = snd (sf_send (sending [] []) videoTrack None
                          (fresh (sf_SendHandler noParameters) ()))"

text \<open>The \<open>@connect\<close> notifications in a log that the listener accepted.\<close>

definition acknowledged :: "entry list \<Rightarrow> entry list" where
  "acknowledged es = filter (\<lambda>e. outcome e = None) (connects es)"

text \<open>
  A Firefox60 send handler whose only \<open>send()\<close> failed at \<open>setRemoteDescription\<close>: no
  offer/answer round has completed on it.
\<close>

definition ff_first_round_failed :: "(ff_send, unit) st" where
  "ff_first_round_failed =
     snd (ff_send (refusing Answer) audioTrack None (fresh (ff_SendHandler noParameters) ()))"

section \<open>Postconditions\<close>

text \<open>\<open>post (m s) Q\<close>: the result and the final state of running \<open>m\<close> from \<open>s\<close> satisfy \<open>Q\<close>.\<close>

definition post :: "(error + 'a) \<times> ('h, 'w) st \<Rightarrow> (error + 'a \<Rightarrow> ('h, 'w) st \<Rightarrow> bool) \<Rightarrow> bool" where
  "post p Q = Q (fst p) (snd p)"

lemma steps_Nil: "steps [] = succeed ()"
  by (simp add: steps_def)

lemma steps_Cons: "steps (m # ms) = andThen m (\<lambda>_. steps ms)"
  by (simp add: steps_def)

lemma post_succeed: "post (succeed x s) Q = Q (Inr x) s"
  by (simp add: post_def succeed_def)

lemma post_throw: "post (throw e s) Q = Q (Inl e) s"
  by (simp add: post_def throw_def)

lemma post_pair: "post (r, s) Q = Q r s"
  by (simp add: post_def)

lemma post_andThen:
  "post (andThen m f s) Q =
   post (m s) (\<lambda>r s'. case r of Inl e \<Rightarrow> Q (Inl e) s' | Inr x \<Rightarrow> post (f x s') Q)"
  by (simp add: post_def andThen_def split: prod.splits sum.splits)

lemma post_tryCatch:
  "post (tryCatch m h s) Q =
   post (m s) (\<lambda>r s'. case r of Inl e \<Rightarrow> post (h e s') Q | Inr x \<Rightarrow> Q (Inr x) s')"
  by (simp add: post_def tryCatch_def split: prod.splits sum.splits)

lemma post_onResult:
  "post (onResult m h k s) Q =
   post (m s) (\<lambda>r s'. case r of Inl e \<Rightarrow> post (h e s') Q | Inr x \<Rightarrow> post (k x s') Q)"
  by (simp add: post_def onResult_def split: prod.splits sum.splits)

lemma post_attempt: "post (attempt m s) Q = post (m s) (\<lambda>r s'. Q (Inr ()) s')"
  by (simp add: post_def attempt_def)

lemma post_assign: "post (assign f s) Q = Q (Inr ()) (s\<lparr>self := f (self s)\<rparr>)"
  by (simp add: post_def assign_def)

lemma post_unlessReady:
  "post (unlessReady m s) Q = (if \<not> transportReady (self s) then post (m s) Q else Q (Inr ()) s)"
  by (simp add: post_def unlessReady_def)

lemma post_returning:
  "post (returning f m s) Q =
   post (m s) (\<lambda>r s'. case r of Inl e \<Rightarrow> Q (Inl e) s' | Inr x \<Rightarrow> Q (Inr (f x)) s')"
  by (simp add: returning_def post_def andThen_def succeed_def split: prod.splits sum.splits)

text \<open>An external call may go either way, and leaves any outside world behind.\<close>

lemma post_await:
  "\<lbrakk>\<And>w. Q (Inr ()) (logged c None True w s);
    \<And>m w. Q (Inl (Rejected m)) (logged c (Some m) True w s)\<rbrakk> \<Longrightarrow> post (await E c s) Q"
  by (simp add: post_def await_def split: prod.splits option.splits)

lemma post_detached:
  "\<lbrakk>\<And>r w. Q (Inr ()) (logged c r False w s)\<rbrakk> \<Longrightarrow> post (detached E c s) Q"
  by (simp add: post_def detached_def split: prod.splits)

lemma post_awaitAddTransceiver:
  "\<lbrakk>\<And>tr w. Q (Inr tr) (logged (AddTransceiver t d) None True w s);
    \<And>m w. Q (Inl (Rejected m)) (logged (AddTransceiver t d) (Some m) True w s)\<rbrakk>
   \<Longrightarrow> post (awaitAddTransceiver E t d s) Q"
  by (simp add: post_def awaitAddTransceiver_def split: prod.splits sum.splits)

lemma post_awaitAddTrack:
  "\<lbrakk>\<And>sn w. Q (Inr sn) (logged (AddTrack t) None True w s);
    \<And>m w. Q (Inl (Rejected m)) (logged (AddTrack t) (Some m) True w s)\<rbrakk>
   \<Longrightarrow> post (awaitAddTrack E t s) Q"
  by (simp add: post_def awaitAddTrack_def split: prod.splits sum.splits)

lemma self_logged: "self (logged c r a w s) = self s"
  by (simp add: logged_def)

lemma world_logged: "world (logged c r a w s) = w"
  by (simp add: logged_def)

lemma trace_logged: "trace (logged c r a w s) = trace s @ [\<lparr>call = c, outcome = r, awaited = a\<rparr>]"
  by (simp add: logged_def)

lemmas post_simps = post_succeed post_throw post_pair post_andThen post_tryCatch post_onResult
  post_attempt
  post_assign post_unlessReady post_returning steps_Nil steps_Cons self_logged world_logged
  trace_logged

lemmas post_intros = post_await post_detached post_awaitAddTransceiver post_awaitAddTrack

section \<open>Unsupported operations\<close>

text \<open>
  C8. An operation the engine does not support fails with \<open>UnsupportedError\<close> and has no
  side effect: simulcast layer control on the Safari11 send handler and ICE-server
  reconfiguration on both Firefox60 handlers return the error and leave the handler, the
  outside world and the log of external calls exactly as they were.
\<close>

theorem unsupported_operation_no_side_effect:
  "sf_send_handler E (SetMaxSpatialLayer t spatialLayer) s =
     (Inl (UnsupportedError ''not supported''), s) \<and>
   ff_send_handler E1 (SendUpdateIceServers iceServers) s1 =
     (Inl (UnsupportedError ''not supported''), s1) \<and>
   ff_recv_handler E2 (RecvUpdateIceServers iceServers) s2 =
     (Inl (UnsupportedError ''not supported''), s2)"
  by (simp add: sf_setMaxSpatialLayer_def ff_updateIceServers_def returning_def andThen_def
      throw_def)

section \<open>Simulcast layer control (Firefox60)\<close>

lemma switch_medium:
  "length encs = 3 \<Longrightarrow> map active (switchSpatialLayer ''medium'' encs) = [True, True, False]"
  by (auto simp: switchSpatialLayer_def setActive_def length_Suc_conv numeral_3_eq_3)

lemma switch_low:
  "length encs = 3 \<Longrightarrow> map active (switchSpatialLayer ''low'' encs) = [True, False, False]"
  by (auto simp: switchSpatialLayer_def setActive_def length_Suc_conv numeral_3_eq_3)

lemma setMaxSpatialLayer_calls:
  "findSender E t s = Some rtpSender \<Longrightarrow>
   post (ff_setMaxSpatialLayer E t l s) (\<lambda>r s'. map call (since s s') =
     [SenderSetParameters (sn_id rtpSender) (switchSpatialLayer l (sn_encodings rtpSender))])"
  unfolding ff_setMaxSpatialLayer_def
  by (auto simp: post_simps since_def intro!: post_intros)

text \<open>
  C6. On the engine with per-layer encoding control (Firefox60), for a sending track
  whose sender has three encodings, \<open>setMaxSpatialLayer\<close> makes exactly one external
  call, \<open>setParameters\<close> on that sender, and the encodings it hands over have the active
  flags \<open>[true, true, false]\<close> for \<open>'medium'\<close> and \<open>[true, false, false]\<close> for \<open>'low'\<close>,
  whatever the flags were before.
\<close>

theorem setMaxSpatialLayer_active_flags:
  assumes "findSender E t s = Some rtpSender" and "length (sn_encodings rtpSender) = 3"
  shows "map call (since s (snd (ff_setMaxSpatialLayer E t ''medium'' s))) =
           [SenderSetParameters (sn_id rtpSender)
              (switchSpatialLayer ''medium'' (sn_encodings rtpSender))] \<and>
         map active (switchSpatialLayer ''medium'' (sn_encodings rtpSender)) =
           [True, True, False] \<and>
         map call (since s (snd (ff_setMaxSpatialLayer E t ''low'' s))) =
           [SenderSetParameters (sn_id rtpSender)
              (switchSpatialLayer ''low'' (sn_encodings rtpSender))] \<and>
         map active (switchSpatialLayer ''low'' (sn_encodings rtpSender)) =
           [True, False, False]"
  using setMaxSpatialLayer_calls[OF assms(1), of "''medium''"]
    setMaxSpatialLayer_calls[OF assms(1), of "''low''"]
    switch_medium[OF assms(2)] switch_low[OF assms(2)]
  by (simp add: post_def)

theorem setMaxSpatialLayer_active_flags_witness:
  "findSender (scripted [] [] [threeLayers] [] ''stable'') videoTrack
     (fresh (ff_SendHandler noParameters) ()) = Some threeLayers \<and>
   length (sn_encodings threeLayers) = 3 \<and>
   map call (since (fresh (ff_SendHandler noParameters) ())
       (snd (ff_setMaxSpatialLayer (scripted [] [] [threeLayers] [] ''stable'') videoTrack
               ''medium'' (fresh (ff_SendHandler noParameters) ())))) =
     [SenderSetParameters 7 (switchSpatialLayer ''medium'' (sn_encodings threeLayers))] \<and>
   map active (switchSpatialLayer ''medium'' (sn_encodings threeLayers)) = [True, True, False] \<and>
   map active (switchSpatialLayer ''low'' (sn_encodings threeLayers)) = [True, False, False]"
proof -
  have h1: "findSender (scripted [] [] [threeLayers] [] ''stable'') videoTrack
              (fresh (ff_SendHandler noParameters) ()) = Some threeLayers"
    by (simp add: findSender_def scripted_def threeLayers_def fresh_def)
  have h2: "length (sn_encodings threeLayers) = 3"
    by (simp add: threeLayers_def)
  have "sn_id threeLayers = 7"
    by (simp add: threeLayers_def)
  with setMaxSpatialLayer_active_flags[OF h1 h2] h1 h2 show ?thesis
    by simp
qed

section \<open>The \<open>@connect\<close> notification\<close>

lemmas run_defs = succeed_def throw_def andThen_def tryCatch_def onResult_def attempt_def
  assign_def await_def
  detached_def logged_def steps_def unlessReady_def returning_def awaitAddTransceiver_def
  awaitAddTrack_def setupTransport_def fresh_def scripted_def

text \<open>
  C3. The claim is that \<open>@connect\<close> is emitted exactly once per handler lifetime. On the
  Safari11 receive handler it is not: \<open>receive()\<close> tests \<open>_transportUpdated\<close>, which is
  never set, instead of \<open>_transportReady\<close>. Here two \<open>receive()\<close> calls on one new
  handler both succeed, and the log holds two \<open>@connect\<close> notifications.
\<close>

theorem safari_receive_emits_connect_twice:
  "fst (sf_recv_handler twoSources (Receive ''a'' Audio opusConsumerRtp)
         (fresh (sf_RecvHandler noParameters) ())) =
     Inr (VTrack \<lparr>track_id = ''audio-a'', track_kind = Audio\<rparr>) \<and>
   fst (sf_recv_handler twoSources (Receive ''b'' Audio opusConsumerRtp)
         (snd (sf_recv_handler twoSources (Receive ''a'' Audio opusConsumerRtp)
                (fresh (sf_RecvHandler noParameters) ())))) =
     Inr (VTrack \<lparr>track_id = ''audio-b'', track_kind = Audio\<rparr>) \<and>
   map call (connects (trace (run (sf_recv_handler twoSources)
       [Receive ''a'' Audio opusConsumerRtp, Receive ''b'' Audio opusConsumerRtp]
       (fresh (sf_RecvHandler noParameters) ())))) =
     [EmitConnect (Some ''client''), EmitConnect (Some ''client'')]"
  by (simp add: sf_receive_def run_defs twoSources_def opusConsumerRtp_def sf_RecvHandler_def
      transportUpdated_def connects_def)

section \<open>Receiver-info maps\<close>

lemma map_has_delete: "\<not> map_has k (map_delete k m)"
  by (induction m) (auto split: if_splits)

lemma map_has_set: "map_has k (map_set k v m)"
  by (induction m) (auto split: if_splits)

lemma map_get_set: "map_get k (map_set k v m) = Some v"
  by (induction m) (auto split: if_splits)

lemma map_delete_set: "\<not> map_has k m \<Longrightarrow> map_delete k (map_set k v m) = m"
  by (induction m) (auto split: if_splits)

lemma entriesFor_set: "\<not> map_has k m \<Longrightarrow> entriesFor k (map_set k v m) = [(k, v)]"
  by (induction m) (auto simp: entriesFor_def split: if_splits)

lemmas eval_defs = run_defs twoSources_def opusConsumerRtp_def sf_RecvHandler_def
  ff_RecvHandler_def sf_SendHandler_def ff_SendHandler_def transportUpdated_def
  sf_receiving_a_def ff_receiving_a_def Let_def micSender_def sending_def sf_sending_mic_def
  ff_sending_mic_def findSender_def since_def audioTrack_def videoTrack_def

section \<open>Stopping and starting again\<close>

lemma sf_stopReceiving_gone:
  "post (sf_stopReceiving E i s) (\<lambda>r s'. \<not> map_has i (sf_receiverInfos (self s')))"
  unfolding sf_stopReceiving_def
  by (auto simp: post_simps map_has_delete intro!: post_intros)

lemma sf_receive_fresh:
  "\<not> map_has i (sf_receiverInfos (self s)) \<Longrightarrow>
   post (sf_receive E i k p s) (\<lambda>r s'. (\<forall>m. r \<noteq> Inl (DuplicatedError m)) \<and>
      (isl r \<or> length (entriesFor i (sf_receiverInfos (self s'))) = 1))"
  unfolding sf_receive_def setupTransport_def
  by (auto simp: post_simps entriesFor_set Let_def intro!: post_intros
      split: list.splits option.splits)

lemma ff_stopReceiving_kept:
  "map_has i (receiverInfos (self s)) \<Longrightarrow>
   post (ff_stopReceiving E i s) (\<lambda>r s'. map_has i (receiverInfos (self s')))"
  unfolding ff_stopReceiving_def
  by (auto simp: post_simps map_has_set intro!: post_intros split: option.splits)

lemma ff_receive_duplicate:
  "map_has i (receiverInfos (self s)) \<Longrightarrow>
   ff_receive E i k p s = (Inl (DuplicatedError ''already receiving this source''), s)"
  by (simp add: ff_receive_def throw_def)

text \<open>
  C2, as stated, fails on the Firefox60 receive handler: \<open>stopReceiving\<close> keeps the entry
  (marked \<open>closed\<close>), so a \<open>receive\<close> with the same id right after a successful
  \<open>stopReceiving\<close> raises the duplicate error.
\<close>

theorem firefox_receive_after_stop_is_duplicate:
  "fst (ff_stopReceiving twoSources ''a'' ff_receiving_a) = Inr () \<and>
   fst (ff_receive twoSources ''a'' Audio opusConsumerRtp
          (snd (ff_stopReceiving twoSources ''a'' ff_receiving_a))) =
     Inl (DuplicatedError ''already receiving this source'')"
  by (simp add: ff_receive_def ff_stopReceiving_def eval_defs)

text \<open>
  C2, amended. On the Safari11 receive handler, \<open>stopReceiving(id)\<close> followed at once by
  \<open>receive\<close> with the same id never raises the duplicate error, whatever the outside
  world does, and when that \<open>receive\<close> returns a track the map holds exactly one entry
  for the id. On the Firefox60 receive handler the entry of a stopped source stays in
  the map, and a \<open>receive\<close> with the same id after \<open>stopReceiving\<close> raises
  \<open>DuplicatedError\<close>.
\<close>

theorem receive_after_stopReceiving:
  "(\<forall>m. fst (sf_receive E i k p (snd (sf_stopReceiving E i s))) \<noteq> Inl (DuplicatedError m)) \<and>
   (fst (sf_receive E i k p (snd (sf_stopReceiving E i s))) = Inr tk \<longrightarrow>
      length (entriesFor i (sf_receiverInfos
         (self (snd (sf_receive E i k p (snd (sf_stopReceiving E i s))))))) = 1) \<and>
   (map_has i (receiverInfos (self s1)) \<longrightarrow>
      fst (ff_receive E1 i k p (snd (ff_stopReceiving E1 i s1))) =
        Inl (DuplicatedError ''already receiving this source''))"
proof -
  have a: "\<not> map_has i (sf_receiverInfos (self (snd (sf_stopReceiving E i s))))"
    using sf_stopReceiving_gone[of E i s] by (simp add: post_def)
  have b: "map_has i (receiverInfos (self s1)) \<Longrightarrow>
           map_has i (receiverInfos (self (snd (ff_stopReceiving E1 i s1))))"
    using ff_stopReceiving_kept[of i s1 E1] by (simp add: post_def)
  show ?thesis
    using sf_receive_fresh[OF a, of E k p] b
    by (auto simp: post_def ff_receive_duplicate)
qed

lemma safari_receive_again:
  "fst (sf_receive twoSources ''a'' Audio opusConsumerRtp
          (snd (sf_stopReceiving twoSources ''a'' sf_receiving_a))) =
     Inr \<lparr>track_id = ''audio-a'', track_kind = Audio\<rparr>"
  by (simp add: sf_receive_def sf_stopReceiving_def eval_defs)

lemma firefox_receiving_a: "map_has ''a'' (receiverInfos (self ff_receiving_a))"
  by (simp add: ff_receive_def eval_defs)

theorem receive_after_stopReceiving_witness:
  "fst (sf_receive twoSources ''a'' Audio opusConsumerRtp
          (snd (sf_stopReceiving twoSources ''a'' sf_receiving_a))) =
     Inr \<lparr>track_id = ''audio-a'', track_kind = Audio\<rparr> \<and>
   length (entriesFor ''a'' (sf_receiverInfos (self (snd (sf_receive twoSources ''a'' Audio
      opusConsumerRtp (snd (sf_stopReceiving twoSources ''a'' sf_receiving_a))))))) = 1 \<and>
   map_has ''a'' (receiverInfos (self ff_receiving_a)) \<and>
   fst (ff_receive twoSources ''a'' Audio opusConsumerRtp
          (snd (ff_stopReceiving twoSources ''a'' ff_receiving_a))) =
     Inl (DuplicatedError ''already receiving this source'')"
  using receive_after_stopReceiving[of twoSources "''a''" Audio opusConsumerRtp sf_receiving_a
      "\<lparr>track_id = ''audio-a'', track_kind = Audio\<rparr>" ff_receiving_a twoSources]
    safari_receive_again firefox_receiving_a
  by blast

section \<open>When a stop operation removes the entry\<close>

lemma sf_stopSending_removed:
  "post (sf_stopSending E t s) (\<lambda>r s'.
      CreateOffer False \<in> set (map call (since s s')) \<longrightarrow> t \<notin> stream (self s'))"
  unfolding sf_stopSending_def
  by (auto simp: post_simps since_def intro!: post_intros split: option.splits)

lemma ff_stopSending_removed:
  "post (ff_stopSending E t s) (\<lambda>r s'.
      (SetRemoteDescription Answer \<in> set (map call (since s s')) \<longrightarrow>
         t \<notin> tracks (self s')) \<and>
      (SetRemoteDescription Answer \<notin> set (map call (since s s')) \<longrightarrow>
         tracks (self s') = tracks (self s)))"
  unfolding ff_stopSending_def
  by (auto simp: post_simps since_def intro!: post_intros split: option.splits)

lemma ff_stopReceiving_closed:
  "map_get i (receiverInfos (self s)) = Some ri \<Longrightarrow>
   post (ff_stopReceiving E i s) (\<lambda>r s'.
      map_get i (receiverInfos (self s')) = Some (ri\<lparr>ri_closed := True\<rparr>))"
  unfolding ff_stopReceiving_def
  by (auto simp: post_simps map_get_set intro!: post_intros)

text \<open>
  C4, as stated, fails: Safari11 \<open>stopReceiving\<close> deletes the entry before the round, so
  when \<open>setRemoteDescription\<close> fails the entry that was there is gone.
\<close>

theorem safari_stopReceiving_failure_loses_entry:
  "map_has ''a'' (sf_receiverInfos (self sf_receiving_a)) \<and>
   fst (sf_stopReceiving (scripted [SetRemoteDescription Offer] [] [] [] ''stable'') ''a''
          sf_receiving_a) = Inl (Rejected ''failed'') \<and>
   \<not> map_has ''a'' (sf_receiverInfos (self (snd
       (sf_stopReceiving (scripted [SetRemoteDescription Offer] [] [] [] ''stable'') ''a''
          sf_receiving_a))))"
  by (simp add: sf_receive_def sf_stopReceiving_def eval_defs)

text \<open>
  C4, amended. No stop operation waits for the round to succeed before it touches the
  registry, and none puts an entry back. Safari11 \<open>stopReceiving\<close> leaves no entry for
  the id, whatever the round does. Safari11 \<open>stopSending\<close> has removed the track from
  the stream once the round has started (\<open>createOffer\<close> was called). Firefox60
  \<open>stopSending\<close> removes the track just before \<open>setRemoteDescription\<close>: the track is gone
  once that call was made, whether it failed or not, and the track set is unchanged
  when the call was not reached. Firefox60 \<open>stopReceiving\<close> never removes the entry: it
  stays in the map marked \<open>closed\<close>, whatever the round does.
\<close>

theorem stop_operations_registry:
  "\<not> map_has i (sf_receiverInfos (self (snd (sf_stopReceiving E i s)))) \<and>
   (CreateOffer False \<in> set (map call (since s1 (snd (sf_stopSending E1 t s1)))) \<longrightarrow>
      t \<notin> stream (self (snd (sf_stopSending E1 t s1)))) \<and>
   (SetRemoteDescription Answer \<in> set (map call (since s2 (snd (ff_stopSending E2 t s2)))) \<longrightarrow>
      t \<notin> tracks (self (snd (ff_stopSending E2 t s2)))) \<and>
   (SetRemoteDescription Answer \<notin> set (map call (since s2 (snd (ff_stopSending E2 t s2)))) \<longrightarrow>
      tracks (self (snd (ff_stopSending E2 t s2))) = tracks (self s2)) \<and>
   (map_get i (receiverInfos (self s3)) = Some ri \<longrightarrow>
      map_get i (receiverInfos (self (snd (ff_stopReceiving E3 i s3)))) =
        Some (ri\<lparr>ri_closed := True\<rparr>))"
  using sf_stopReceiving_gone[of E i s] sf_stopSending_removed[of E1 t s1]
    ff_stopSending_removed[of E2 t s2] ff_stopReceiving_closed[of i s3 ri E3]
  by (simp add: post_def)

lemma safari_stopSending_round:
  "CreateOffer False \<in> set (map call (since sf_sending_mic
      (snd (sf_stopSending (sending [micSender] []) audioTrack sf_sending_mic))))"
  by (simp add: sf_stopSending_def eval_defs)

lemma firefox_stopSending_round:
  "SetRemoteDescription Answer \<in> set (map call (since ff_sending_mic
      (snd (ff_stopSending (sending [micSender] []) audioTrack ff_sending_mic))))"
  by (simp add: ff_stopSending_def eval_defs)

lemma firefox_stopSending_no_offer:
  "SetRemoteDescription Answer \<notin> set (map call (since ff_sending_mic
      (snd (ff_stopSending (sending [micSender] [CreateOffer False]) audioTrack
              ff_sending_mic))))"
  by (simp add: ff_stopSending_def eval_defs)

lemma firefox_info_a:
  "map_get ''a'' (receiverInfos (self ff_receiving_a)) =
   Some \<lparr>ri_mid = ''a-a'', ri_kind = Audio, ri_closed = False, ri_streamId = ''a'',
         ri_trackId = ''audio-a'', ri_rtpParameters = opusConsumerRtp\<rparr>"
  by (simp add: ff_receive_def eval_defs)

theorem stop_operations_registry_witness:
  "CreateOffer False \<in> set (map call (since sf_sending_mic
      (snd (sf_stopSending (sending [micSender] []) audioTrack sf_sending_mic)))) \<and>
   audioTrack \<notin> stream (self (snd (sf_stopSending (sending [micSender] []) audioTrack
      sf_sending_mic))) \<and>
   SetRemoteDescription Answer \<in> set (map call (since ff_sending_mic
      (snd (ff_stopSending (sending [micSender] []) audioTrack ff_sending_mic)))) \<and>
   audioTrack \<notin> tracks (self (snd (ff_stopSending (sending [micSender] []) audioTrack
      ff_sending_mic))) \<and>
   SetRemoteDescription Answer \<notin> set (map call (since ff_sending_mic
      (snd (ff_stopSending (sending [micSender] [CreateOffer False]) audioTrack
              ff_sending_mic)))) \<and>
   tracks (self (snd (ff_stopSending (sending [micSender] [CreateOffer False]) audioTrack
      ff_sending_mic))) = tracks (self ff_sending_mic) \<and>
   map_get ''a'' (receiverInfos (self (snd (ff_stopReceiving twoSources ''a''
      ff_receiving_a)))) =
     Some \<lparr>ri_mid = ''a-a'', ri_kind = Audio, ri_closed = True, ri_streamId = ''a'',
           ri_trackId = ''audio-a'', ri_rtpParameters = opusConsumerRtp\<rparr>"
proof -
  note A = stop_operations_registry[of "''a''" twoSources sf_receiving_a sf_sending_mic
      "sending [micSender] []" audioTrack ff_sending_mic "sending [micSender] []"
      ff_receiving_a
      "\<lparr>ri_mid = ''a-a'', ri_kind = Audio, ri_closed = False, ri_streamId = ''a'',
         ri_trackId = ''audio-a'', ri_rtpParameters = opusConsumerRtp\<rparr>" twoSources]
  note B = stop_operations_registry[of "''a''" twoSources sf_receiving_a sf_sending_mic
      "sending [micSender] []" audioTrack ff_sending_mic
      "sending [micSender] [CreateOffer False]" ff_receiving_a
      "\<lparr>ri_mid = ''a-a'', ri_kind = Audio, ri_closed = False, ri_streamId = ''a'',
         ri_trackId = ''audio-a'', ri_rtpParameters = opusConsumerRtp\<rparr>" twoSources]
  from A safari_stopSending_round
  have 1: "audioTrack \<notin> stream (self (snd (sf_stopSending (sending [micSender] [])
      audioTrack sf_sending_mic)))"
    by blast
  from A firefox_stopSending_round
  have 2: "audioTrack \<notin> tracks (self (snd (ff_stopSending (sending [micSender] [])
      audioTrack ff_sending_mic)))"
    by blast
  from B firefox_stopSending_no_offer
  have 3: "tracks (self (snd (ff_stopSending (sending [micSender] [CreateOffer False])
      audioTrack ff_sending_mic))) = tracks (self ff_sending_mic)"
    by blast
  from A firefox_info_a
  have 4: "map_get ''a'' (receiverInfos (self (snd (ff_stopReceiving twoSources ''a''
      ff_receiving_a)))) =
     Some \<lparr>ri_mid = ''a-a'', ri_kind = Audio, ri_closed = True, ri_streamId = ''a'',
           ri_trackId = ''audio-a'', ri_rtpParameters = opusConsumerRtp\<rparr>"
    by simp
  from safari_stopSending_round firefox_stopSending_round firefox_stopSending_no_offer
    1 2 3 4 show ?thesis
    by (intro conjI)
qed

section \<open>The registry after a failed start\<close>

lemma ff_send_failure:
  "post (ff_send E t sc s) (\<lambda>r s'. isl r \<longrightarrow> tracks (self s') = tracks (self s))"
  unfolding ff_send_def ff_send_negotiate_def ff_send_undo_def setupTransport_def
  by (auto simp: post_simps intro!: post_intros split: option.splits)

lemma sf_send_failure:
  "post (sf_send E t sc s) (\<lambda>r s'. isl r \<longrightarrow> stream (self s') = stream (self s))"
  unfolding sf_send_def sf_send_negotiate_def sf_send_undo_def setupTransport_def
  by (auto simp: post_simps getTrackById_def intro!: post_intros split: option.splits)

lemma ff_receive_failure:
  "post (ff_receive E i k p s) (\<lambda>r s'.
      isl r \<and> failedAt (SetRemoteDescription Offer) s' \<longrightarrow>
      receiverInfos (self s') = receiverInfos (self s))"
  unfolding ff_receive_def setupTransport_def Let_def
  by (auto simp: post_simps failedAt_def map_delete_set intro!: post_intros
      split: option.splits)

lemma sf_receive_failure:
  "post (sf_receive E i k p s) (\<lambda>r s'.
      isl r \<and> failedAt (SetRemoteDescription Offer) s' \<longrightarrow>
      sf_receiverInfos (self s') = sf_receiverInfos (self s))"
  unfolding sf_receive_def setupTransport_def Let_def
  by (auto simp: post_simps failedAt_def map_delete_set intro!: post_intros
      split: option.splits list.splits)

text \<open>
  C1, as stated, fails: a Firefox60 \<open>receive()\<close> whose \<open>createAnswer\<close> step fails raises
  the error and leaves the new entry in the receiver-info map, which did not hold it
  before the call. The \<open>catch\<close> block of \<open>receive()\<close> covers \<open>setRemoteDescription\<close> only.
\<close>

theorem firefox_receive_failure_keeps_entry:
  "fst (ff_receive (scripted [CreateAnswer] [] [] [] ''stable'') ''a'' Audio opusConsumerRtp
         (fresh (ff_RecvHandler noParameters) ())) = Inl (Rejected ''failed'') \<and>
   map_has ''a'' (receiverInfos (self (snd (ff_receive
         (scripted [CreateAnswer] [] [] [] ''stable'') ''a'' Audio opusConsumerRtp
         (fresh (ff_RecvHandler noParameters) ()))))) \<and>
   \<not> map_has ''a'' (receiverInfos (self (fresh (ff_RecvHandler noParameters) ())))"
  by (simp add: ff_receive_def eval_defs)

text \<open>
  C1, amended. A \<open>send()\<close> call that fails, at whatever step, leaves the tracked-track
  set (Firefox60 \<open>_tracks\<close>, Safari11 \<open>_stream\<close>) as it was before the call. A
  \<open>receive()\<close> call that fails at its \<open>setRemoteDescription\<close> step leaves the
  receiver-info map as it was before the call. (What a \<open>receive()\<close> that fails at a later
  step leaves behind, and the Safari11 set of seen kinds, are not part of the statement.)
\<close>

theorem failed_start_restores_registry:
  "(isl (fst (ff_send E t sc s)) \<longrightarrow>
      tracks (self (snd (ff_send E t sc s))) = tracks (self s)) \<and>
   (isl (fst (sf_send E1 t sc s1)) \<longrightarrow>
      stream (self (snd (sf_send E1 t sc s1))) = stream (self s1)) \<and>
   (isl (fst (ff_receive E2 i k p s2)) \<and>
    failedAt (SetRemoteDescription Offer) (snd (ff_receive E2 i k p s2)) \<longrightarrow>
      receiverInfos (self (snd (ff_receive E2 i k p s2))) = receiverInfos (self s2)) \<and>
   (isl (fst (sf_receive E3 i k p s3)) \<and>
    failedAt (SetRemoteDescription Offer) (snd (sf_receive E3 i k p s3)) \<longrightarrow>
      sf_receiverInfos (self (snd (sf_receive E3 i k p s3))) = sf_receiverInfos (self s3))"
  using ff_send_failure[of E t sc s] sf_send_failure[of E1 t sc s1]
    ff_receive_failure[of E2 i k p s2] sf_receive_failure[of E3 i k p s3]
  by (simp add: post_def)

lemma firefox_send_refused:
  "isl (fst (ff_send (refusing Answer) audioTrack None (fresh (ff_SendHandler noParameters) ())))"
  by (simp add: ff_send_def ff_send_negotiate_def ff_send_undo_def refusing_def newTransceiver_def
      eval_defs)

lemma safari_send_refused:
  "isl (fst (sf_send (refusing Answer) audioTrack None (fresh (sf_SendHandler noParameters) ())))"
  by (simp add: sf_send_def sf_send_negotiate_def sf_send_undo_def refusing_def getTrackById_def
      eval_defs)

lemma firefox_receive_refused:
  "isl (fst (ff_receive (refusing Offer) ''a'' Audio opusConsumerRtp
               (fresh (ff_RecvHandler noParameters) ()))) \<and>
   failedAt (SetRemoteDescription Offer) (snd (ff_receive (refusing Offer) ''a'' Audio
               opusConsumerRtp (fresh (ff_RecvHandler noParameters) ())))"
  by (simp add: ff_receive_def refusing_def failedAt_def eval_defs)

lemma safari_receive_refused:
  "isl (fst (sf_receive (refusing Offer) ''a'' Audio opusConsumerRtp
               (fresh (sf_RecvHandler noParameters) ()))) \<and>
   failedAt (SetRemoteDescription Offer) (snd (sf_receive (refusing Offer) ''a'' Audio
               opusConsumerRtp (fresh (sf_RecvHandler noParameters) ())))"
  by (simp add: sf_receive_def refusing_def failedAt_def eval_defs)

theorem failed_start_restores_registry_witness:
  "isl (fst (ff_send (refusing Answer) audioTrack None
               (fresh (ff_SendHandler noParameters) ()))) \<and>
   tracks (self (snd (ff_send (refusing Answer) audioTrack None
               (fresh (ff_SendHandler noParameters) ())))) =
     tracks (self (fresh (ff_SendHandler noParameters) ())) \<and>
   isl (fst (sf_send (refusing Answer) audioTrack None
               (fresh (sf_SendHandler noParameters) ()))) \<and>
   stream (self (snd (sf_send (refusing Answer) audioTrack None
               (fresh (sf_SendHandler noParameters) ())))) =
     stream (self (fresh (sf_SendHandler noParameters) ())) \<and>
   failedAt (SetRemoteDescription Offer) (snd (ff_receive (refusing Offer) ''a'' Audio
               opusConsumerRtp (fresh (ff_RecvHandler noParameters) ()))) \<and>
   receiverInfos (self (snd (ff_receive (refusing Offer) ''a'' Audio opusConsumerRtp
               (fresh (ff_RecvHandler noParameters) ())))) =
     receiverInfos (self (fresh (ff_RecvHandler noParameters) ())) \<and>
   failedAt (SetRemoteDescription Offer) (snd (sf_receive (refusing Offer) ''a'' Audio
               opusConsumerRtp (fresh (sf_RecvHandler noParameters) ()))) \<and>
   sf_receiverInfos (self (snd (sf_receive (refusing Offer) ''a'' Audio opusConsumerRtp
               (fresh (sf_RecvHandler noParameters) ())))) =
     sf_receiverInfos (self (fresh (sf_RecvHandler noParameters) ()))"
  using failed_start_restores_registry[of "refusing Answer" audioTrack None
      "fresh (ff_SendHandler noParameters) ()" "refusing Answer"
      "fresh (sf_SendHandler noParameters) ()" "refusing Offer" "''a''" Audio opusConsumerRtp
      "fresh (ff_RecvHandler noParameters) ()" "refusing Offer"
      "fresh (sf_RecvHandler noParameters) ()"]
    firefox_send_refused safari_send_refused firefox_receive_refused safari_receive_refused
  by blast

section \<open>Errors are raised again\<close>

lemmas vc_simps = post_simps since_def swallowed_def

lemma ff_send_faithful:
  "post (ff_send E t sc s) (\<lambda>r s'. isl r \<or> swallowed (since s s') = [])"
  unfolding ff_send_def ff_send_negotiate_def ff_send_undo_def setupTransport_def
  by (auto simp: vc_simps intro!: post_intros split: option.splits)

lemma sf_send_faithful:
  "post (sf_send E t sc s) (\<lambda>r s'. isl r \<or> swallowed (since s s') = [])"
  unfolding sf_send_def sf_send_negotiate_def sf_send_undo_def setupTransport_def
  by (auto simp: vc_simps intro!: post_intros split: option.splits)

lemma ff_receive_faithful:
  "post (ff_receive E i k p s) (\<lambda>r s'. isl r \<or> swallowed (since s s') = [])"
  unfolding ff_receive_def setupTransport_def Let_def
  by (auto simp: vc_simps intro!: post_intros split: option.splits)

lemma sf_receive_faithful:
  "post (sf_receive E i k p s) (\<lambda>r s'. isl r \<or> swallowed (since s s') = [])"
  unfolding sf_receive_def setupTransport_def Let_def
  by (auto simp: vc_simps intro!: post_intros split: option.splits list.splits)

lemma sf_stopSending_faithful:
  "post (sf_stopSending E t s) (\<lambda>r s'. isl r \<or> swallowed (since s s') = [] \<or>
     (\<exists>m. swallowed (since s s') = [\<lparr>call = SetLocalDescription Offer, outcome = Some m, awaited = True\<rparr>] \<and>
          stream (self s') = {}))"
  unfolding sf_stopSending_def
  by (auto simp: vc_simps intro!: post_intros split: option.splits)

lemma post_returning_isl:
  "post (m s) (\<lambda>r s'. isl r \<or> P s') \<Longrightarrow> post (returning f m s) (\<lambda>r s'. isl r \<or> P s')"
  by (cases "m s") (auto simp: post_def returning_def andThen_def succeed_def split: sum.splits)

lemma ff_send_handler_faithful:
  "req \<noteq> SendClose \<Longrightarrow>
   post (ff_send_handler E req s) (\<lambda>r s'. isl r \<or> swallowed (since s s') = [])"
proof (cases req)
  case (Send t sc)
  then show ?thesis using ff_send_faithful[of E t sc s] by (simp add: post_returning_isl)
next
  case SendClose
  assume "req \<noteq> SendClose" with SendClose show ?thesis by simp
qed (auto simp: vc_simps ff_stopSending_def ff_replaceTrack_def ff_setMaxSpatialLayer_def
      getSenderStats_def send_restartIce_def getTransportStats_def ff_updateIceServers_def
      intro!: post_intros split: option.splits)

lemma ff_recv_handler_faithful:
  "req \<noteq> RecvClose \<Longrightarrow>
   post (ff_recv_handler E req s) (\<lambda>r s'. isl r \<or> swallowed (since s s') = [])"
proof (cases req)
  case (Receive i k p)
  then show ?thesis using ff_receive_faithful[of E i k p s] by (simp add: post_returning_isl)
next
  case RecvClose
  assume "req \<noteq> RecvClose" with RecvClose show ?thesis by simp
qed (auto simp: vc_simps ff_stopReceiving_def ff_getReceiverStats_def ff_recv_restartIce_def
      getTransportStats_def ff_updateIceServers_def
      intro!: post_intros split: option.splits)

lemma sf_recv_handler_faithful:
  "req \<noteq> RecvClose \<Longrightarrow>
   post (sf_recv_handler E req s) (\<lambda>r s'. isl r \<or> swallowed (since s s') = [])"
proof (cases req)
  case (Receive i k p)
  then show ?thesis using sf_receive_faithful[of E i k p s] by (simp add: post_returning_isl)
next
  case RecvClose
  assume "req \<noteq> RecvClose" with RecvClose show ?thesis by simp
qed (auto simp: vc_simps sf_stopReceiving_def sf_getReceiverStats_def sf_recv_restartIce_def
      getTransportStats_def sf_updateIceServers_def
      intro!: post_intros split: option.splits)

lemma sf_send_handler_faithful:
  "req \<noteq> SendClose \<Longrightarrow> \<forall>t. req \<noteq> StopSending t \<Longrightarrow>
   post (sf_send_handler E req s) (\<lambda>r s'. isl r \<or> swallowed (since s s') = [])"
proof (cases req)
  case (Send t sc)
  then show ?thesis using sf_send_faithful[of E t sc s] by (simp add: post_returning_isl)
next
  case SendClose
  assume "req \<noteq> SendClose" with SendClose show ?thesis by simp
next
  case (StopSending t)
  assume "\<forall>t. req \<noteq> StopSending t" with StopSending show ?thesis by simp
qed (auto simp: vc_simps sf_replaceTrack_def sf_setMaxSpatialLayer_def
      getSenderStats_def send_restartIce_def getTransportStats_def sf_updateIceServers_def
      intro!: post_intros split: option.splits)

lemma sf_stopSending_handler_faithful:
  "post (sf_send_handler E (StopSending t) s) (\<lambda>r s'. isl r \<or> (swallowed (since s s') = [] \<or>
     (\<exists>m. swallowed (since s s') = [\<lparr>call = SetLocalDescription Offer, outcome = Some m, awaited = True\<rparr>] \<and>
          stream (self s') = {})))"
  using sf_stopSending_faithful[of E t s] by (simp add: post_returning_isl)

text \<open>
  C9, amended. For every public operation other than \<open>close()\<close>, an error raised by an
  external step whose result the operation waits for is raised again to the caller: when
  the operation returns normally, no such step has failed. The one exception is by
  design: Safari11 \<open>stopSending\<close> returns normally after a \<open>setLocalDescription\<close> failure
  when no sending track is left in the stream. (Calls whose promise is not awaited, and
  the state of the registry when the error is raised, are not part of the statement.)
\<close>

theorem errors_are_raised_again:
  "(req \<noteq> SendClose \<and> fst (ff_send_handler E req s) = Inr v \<longrightarrow>
      swallowed (since s (snd (ff_send_handler E req s))) = []) \<and>
   (rreq \<noteq> RecvClose \<and> fst (ff_recv_handler E1 rreq s1) = Inr v1 \<longrightarrow>
      swallowed (since s1 (snd (ff_recv_handler E1 rreq s1))) = []) \<and>
   (rreq \<noteq> RecvClose \<and> fst (sf_recv_handler E2 rreq s2) = Inr v2 \<longrightarrow>
      swallowed (since s2 (snd (sf_recv_handler E2 rreq s2))) = []) \<and>
   (req \<noteq> SendClose \<and> (\<forall>t. req \<noteq> StopSending t) \<and> fst (sf_send_handler E3 req s3) = Inr v3 \<longrightarrow>
      swallowed (since s3 (snd (sf_send_handler E3 req s3))) = []) \<and>
   (fst (sf_send_handler E3 (StopSending t) s3) = Inr v4 \<longrightarrow>
      swallowed (since s3 (snd (sf_send_handler E3 (StopSending t) s3))) = [] \<or>
      (\<exists>m. swallowed (since s3 (snd (sf_send_handler E3 (StopSending t) s3))) =
             [\<lparr>call = SetLocalDescription Offer, outcome = Some m, awaited = True\<rparr>] \<and>
           stream (self (snd (sf_send_handler E3 (StopSending t) s3))) = {}))"
  using ff_send_handler_faithful[of req E s] ff_recv_handler_faithful[of rreq E1 s1]
    sf_recv_handler_faithful[of rreq E2 s2] sf_send_handler_faithful[of req E3 s3]
    sf_stopSending_handler_faithful[of E3 t s3]
  unfolding post_def by (intro conjI impI; (elim conjE)?; simp)

text \<open>
  C9, as stated, fails: Safari11 \<open>stopSending\<close> of the last track returns normally
  although the \<open>setLocalDescription\<close> it waited for has failed.
\<close>

theorem safari_stopSending_ignores_failure:
  "fst (sf_send_handler (sending [micSender] [SetLocalDescription Offer]) (StopSending audioTrack)
         sf_sending_mic) = Inr VUnit \<and>
   swallowed (since sf_sending_mic (snd (sf_send_handler
         (sending [micSender] [SetLocalDescription Offer]) (StopSending audioTrack) sf_sending_mic))) =
     [\<lparr>call = SetLocalDescription Offer, outcome = Some ''failed'', awaited = True\<rparr>]"
  by (simp add: sf_stopSending_def swallowed_def eval_defs)


lemma firefox_send_video: "fst (ff_send_handler (sending [micSender] []) (Send videoTrack None) ff_sending_mic) =
     Inr (VRtpParameters (noParameters Video))"
  by (simp add: ff_send_def ff_send_negotiate_def ff_send_undo_def newTransceiver_def eval_defs)
lemma firefox_receive_a: "fst (ff_recv_handler twoSources (Receive ''a'' Audio opusConsumerRtp)
         (fresh (ff_RecvHandler noParameters) ())) = Inr (VTrack \<lparr>track_id = ''audio-a'', track_kind = Audio\<rparr>)"
  by (simp add: ff_receive_def eval_defs)
lemma safari_receive_a: "fst (sf_recv_handler twoSources (Receive ''a'' Audio opusConsumerRtp)
         (fresh (sf_RecvHandler noParameters) ())) = Inr (VTrack \<lparr>track_id = ''audio-a'', track_kind = Audio\<rparr>)"
  by (simp add: sf_receive_def eval_defs)
lemma safari_send_video: "fst (sf_send_handler (sending [micSender] []) (Send videoTrack None) sf_sending_mic) =
     Inr (VRtpParameters (noParameters Video))"
  by (simp add: sf_send_def sf_send_negotiate_def sf_send_undo_def getTrackById_def eval_defs)
lemma safari_stopSending_last_track: "fst (sf_send_handler (sending [micSender] [SetLocalDescription Offer]) (StopSending audioTrack)
         sf_sending_mic) = Inr VUnit"
  by (simp add: sf_stopSending_def eval_defs)

theorem errors_are_raised_again_witness:
  "fst (ff_send_handler (sending [micSender] []) (Send videoTrack None) ff_sending_mic) =
     Inr (VRtpParameters (noParameters Video)) \<and>
   swallowed (since ff_sending_mic (snd (ff_send_handler (sending [micSender] [])
     (Send videoTrack None) ff_sending_mic))) = [] \<and>
   fst (ff_recv_handler twoSources (Receive ''a'' Audio opusConsumerRtp)
         (fresh (ff_RecvHandler noParameters) ())) =
     Inr (VTrack \<lparr>track_id = ''audio-a'', track_kind = Audio\<rparr>) \<and>
   swallowed (since (fresh (ff_RecvHandler noParameters) ()) (snd (ff_recv_handler twoSources
     (Receive ''a'' Audio opusConsumerRtp) (fresh (ff_RecvHandler noParameters) ())))) = [] \<and>
   fst (sf_recv_handler twoSources (Receive ''a'' Audio opusConsumerRtp)
         (fresh (sf_RecvHandler noParameters) ())) =
     Inr (VTrack \<lparr>track_id = ''audio-a'', track_kind = Audio\<rparr>) \<and>
   swallowed (since (fresh (sf_RecvHandler noParameters) ()) (snd (sf_recv_handler twoSources
     (Receive ''a'' Audio opusConsumerRtp) (fresh (sf_RecvHandler noParameters) ())))) = [] \<and>
   fst (sf_send_handler (sending [micSender] []) (Send videoTrack None) sf_sending_mic) =
     Inr (VRtpParameters (noParameters Video)) \<and>
   swallowed (since sf_sending_mic (snd (sf_send_handler (sending [micSender] [])
     (Send videoTrack None) sf_sending_mic))) = [] \<and>
   fst (sf_send_handler (sending [micSender] [SetLocalDescription Offer]) (StopSending audioTrack)
         sf_sending_mic) = Inr VUnit \<and>
   (swallowed (since sf_sending_mic (snd (sf_send_handler
       (sending [micSender] [SetLocalDescription Offer]) (StopSending audioTrack)
       sf_sending_mic))) = [] \<or>
    (\<exists>m. swallowed (since sf_sending_mic (snd (sf_send_handler
            (sending [micSender] [SetLocalDescription Offer]) (StopSending audioTrack)
            sf_sending_mic))) =
            [\<lparr>call = SetLocalDescription Offer, outcome = Some m, awaited = True\<rparr>] \<and>
          stream (self (snd (sf_send_handler
            (sending [micSender] [SetLocalDescription Offer]) (StopSending audioTrack)
            sf_sending_mic))) = {}))"
proof -
  note A = errors_are_raised_again[where req = "Send videoTrack None" and E = "sending [micSender] []"
      and s = ff_sending_mic and v = "VRtpParameters (noParameters Video)"
      and rreq = "Receive ''a'' Audio opusConsumerRtp" and ?E1.0 = twoSources
      and ?s1.0 = "fresh (ff_RecvHandler noParameters) ()"
      and ?v1.0 = "VTrack \<lparr>track_id = ''audio-a'', track_kind = Audio\<rparr>"
      and ?E2.0 = twoSources and ?s2.0 = "fresh (sf_RecvHandler noParameters) ()"
      and ?v2.0 = "VTrack \<lparr>track_id = ''audio-a'', track_kind = Audio\<rparr>"
      and ?E3.0 = "sending [micSender] []" and ?s3.0 = sf_sending_mic
      and ?v3.0 = "VRtpParameters (noParameters Video)" and t = audioTrack and ?v4.0 = VUnit]
  note B = errors_are_raised_again[where req = "Send videoTrack None" and E = "sending [micSender] []"
      and s = ff_sending_mic and v = "VRtpParameters (noParameters Video)"
      and rreq = "Receive ''a'' Audio opusConsumerRtp" and ?E1.0 = twoSources
      and ?s1.0 = "fresh (ff_RecvHandler noParameters) ()"
      and ?v1.0 = "VTrack \<lparr>track_id = ''audio-a'', track_kind = Audio\<rparr>"
      and ?E2.0 = twoSources and ?s2.0 = "fresh (sf_RecvHandler noParameters) ()"
      and ?v2.0 = "VTrack \<lparr>track_id = ''audio-a'', track_kind = Audio\<rparr>"
      and ?E3.0 = "sending [micSender] [SetLocalDescription Offer]" and ?s3.0 = sf_sending_mic
      and ?v3.0 = "VRtpParameters (noParameters Video)" and t = audioTrack and ?v4.0 = VUnit]
  have n: "Send videoTrack None \<noteq> SendClose" "\<forall>t. Send videoTrack None \<noteq> StopSending t"
    "Receive ''a'' Audio opusConsumerRtp \<noteq> RecvClose"
    by simp_all
  from A n firefox_send_video have 1: "swallowed (since ff_sending_mic (snd (ff_send_handler (sending [micSender] [])
     (Send videoTrack None) ff_sending_mic))) = []" by blast
  from A n firefox_receive_a have 2: "swallowed (since (fresh (ff_RecvHandler noParameters) ()) (snd (ff_recv_handler twoSources
     (Receive ''a'' Audio opusConsumerRtp) (fresh (ff_RecvHandler noParameters) ())))) = []" by blast
  from A n safari_receive_a have 3: "swallowed (since (fresh (sf_RecvHandler noParameters) ()) (snd (sf_recv_handler twoSources
     (Receive ''a'' Audio opusConsumerRtp) (fresh (sf_RecvHandler noParameters) ())))) = []" by blast
  from A n safari_send_video have 4: "swallowed (since sf_sending_mic (snd (sf_send_handler (sending [micSender] [])
     (Send videoTrack None) sf_sending_mic))) = []" by blast
  from B safari_stopSending_last_track have 5: "swallowed (since sf_sending_mic (snd (sf_send_handler
       (sending [micSender] [SetLocalDescription Offer]) (StopSending audioTrack)
       sf_sending_mic))) = [] \<or>
    (\<exists>m. swallowed (since sf_sending_mic (snd (sf_send_handler
            (sending [micSender] [SetLocalDescription Offer]) (StopSending audioTrack)
            sf_sending_mic))) =
            [\<lparr>call = SetLocalDescription Offer, outcome = Some m, awaited = True\<rparr>] \<and>
          stream (self (snd (sf_send_handler
            (sending [micSender] [SetLocalDescription Offer]) (StopSending audioTrack)
            sf_sending_mic))) = {})" by blast
  from firefox_send_video firefox_receive_a safari_receive_a safari_send_video safari_stopSending_last_track 1 2 3 4 5 show ?thesis by (intro conjI)
qed

section \<open>Simulcast rid values (Firefox60)\<close>

lemma string_of_nat_nonempty: "string_of_nat n \<noteq> []"
  by (subst string_of_nat.simps) simp

lemma string_of_nat_inj: "string_of_nat n = string_of_nat m \<Longrightarrow> n = m"
proof (induction n arbitrary: m rule: string_of_nat.induct)
  case (1 n)
  show ?case
  proof (cases "n < 10")
    case True
    show ?thesis
    proof (cases "m < 10")
      case m: True
      from "1.prems" True m have "(48 + n) mod 256 = (48 + m) mod 256"
        by (simp add: string_of_nat.simps[of n] string_of_nat.simps[of m])
      with True m show ?thesis by simp
    next
      case m: False
      from "1.prems" True m have "string_of_nat (m div 10) = []"
        by (simp add: string_of_nat.simps[of n] string_of_nat.simps[of m])
      then show ?thesis by (simp add: string_of_nat_nonempty)
    qed
  next
    case False
    show ?thesis
    proof (cases "m < 10")
      case m: True
      from "1.prems" False m have "string_of_nat (n div 10) = []"
        by (simp add: string_of_nat.simps[of n] string_of_nat.simps[of m])
      then show ?thesis by (simp add: string_of_nat_nonempty)
    next
      case m: False
      from "1.prems" False m
      have e: "string_of_nat (n div 10) = string_of_nat (m div 10)"
        and d: "(48 + n mod 10) mod 256 = (48 + m mod 10) mod 256"
        by (simp_all add: string_of_nat.simps[of n] string_of_nat.simps[of m])
      from "1.IH"[OF False e] have q: "n div 10 = m div 10" .
      have "n mod 10 < 10" "m mod 10 < 10" by simp_all
      with d have r: "n mod 10 = m mod 10" by simp
      from q r show ?thesis by (metis div_mult_mod_eq)
    qed
  qed
qed

lemma rid_layer: "map rid (layer nm prio n b) = (if truthy b then [nm @ string_of_nat n] else [])"
  by (cases b) auto

lemma rids_simulcast_encodings: "map rid (simulcast_encodings sc n) = layerRids sc n"
  by (simp add: simulcast_encodings_def layerRids_def rid_layer)

lemma layerRids_disjoint: "n \<noteq> m \<Longrightarrow> set (layerRids sc n) \<inter> set (layerRids sc' m) = {}"
  by (auto simp: layerRids_def dest: string_of_nat_inj)


lemma ff_send_rids:
  "post (ff_send E t sc s) (\<lambda>r s'.
     (case sc of
        None \<Rightarrow> nextRid (self s') = nextRid (self s) \<and> assigned_rids (since s s') = []
      | Some c \<Rightarrow>
          (nextRid (self s') = nextRid (self s) \<and> assigned_rids (since s s') = []) \<or>
          (nextRid (self s') = nextRid (self s) + 1 \<and>
           assigned_rids (since s s') = map rid (simulcast_encodings c (nextRid (self s))))) \<and>
     (isl r \<or> sc = None \<or> nextRid (self s') = nextRid (self s) + 1))"
  unfolding ff_send_def ff_send_negotiate_def ff_send_undo_def setupTransport_def
  by (auto simp: post_simps since_def assigned_rids_def
      intro!: post_intros split: option.splits)

lemma ff_send_handler_mono:
  "post (ff_send_handler E req s) (\<lambda>r s'. nextRid (self s) \<le> nextRid (self s'))"
proof (cases req)
  case (Send t sc)
  have "nextRid (self s) \<le> nextRid (self (snd (ff_send E t sc s)))"
    using ff_send_rids[of E t sc s] by (auto simp: post_def split: option.splits)
  with Send show ?thesis
    by (cases "ff_send E t sc s")
       (auto simp: post_def returning_def andThen_def succeed_def split: sum.splits)
qed (auto simp: post_simps ff_stopSending_def ff_replaceTrack_def ff_setMaxSpatialLayer_def
      getSenderStats_def send_restartIce_def getTransportStats_def ff_updateIceServers_def
      close_def intro!: post_intros split: option.splits)

lemma run_mono: "nextRid (self s) \<le> nextRid (self (run (ff_send_handler E) reqs s))"
proof (induction reqs arbitrary: s)
  case Nil
  show ?case by simp
next
  case (Cons req reqs)
  have "nextRid (self s) \<le> nextRid (self (snd (ff_send_handler E req s)))"
    using ff_send_handler_mono[of E req s] by (simp add: post_def)
  also have "\<dots> \<le> nextRid (self (run (ff_send_handler E) reqs (snd (ff_send_handler E req s))))"
    by (rule Cons.IH)
  finally show ?case by simp
qed

text \<open>
  C10. In the Firefox60 send handler, a \<open>send()\<close> call with a simulcast option either
  stops before the simulcast block (no rid is assigned, the counter is unchanged) or
  hands \<open>setParameters\<close> encodings whose rids are \<open>low\<close>, \<open>medium\<close>, \<open>high\<close> (those that
  are set) followed by the decimal digits of the counter's current value, and has then
  incremented the counter by exactly one; a call that succeeds has done the latter. A
  call without the option assigns nothing and leaves the counter alone. No operation
  of the handler decreases the counter, so the rids assigned by two \<open>send()\<close> calls on
  the same handler, with any operations in between, are disjoint. (The counter is a
  natural number here; JavaScript's number stops being exact at \<open>2^53\<close>.)
\<close>

theorem simulcast_rids_never_match:
  assumes "s1 = snd (ff_send E t sc s)"
    and "s2 = run (ff_send_handler E) reqs s1"
    and "s3 = snd (ff_send E t' sc' s2)"
  shows "(sc = None \<longrightarrow> nextRid (self s1) = nextRid (self s) \<and> assigned_rids (since s s1) = []) \<and>
     (sc = Some c \<longrightarrow>
        (nextRid (self s1) = nextRid (self s) \<and> assigned_rids (since s s1) = []) \<or>
        (nextRid (self s1) = nextRid (self s) + 1 \<and>
         assigned_rids (since s s1) = map rid (simulcast_encodings c (nextRid (self s))))) \<and>
     (sc = Some c \<and> fst (ff_send E t sc s) = Inr v \<longrightarrow>
        nextRid (self s1) = nextRid (self s) + 1 \<and>
        assigned_rids (since s s1) = map rid (simulcast_encodings c (nextRid (self s)))) \<and>
     map rid (simulcast_encodings c n) =
       (if truthy (low c) then [''low'' @ string_of_nat n] else []) @
       (if truthy (medium c) then [''medium'' @ string_of_nat n] else []) @
       (if truthy (high c) then [''high'' @ string_of_nat n] else []) \<and>
     nextRid (self s1) \<le> nextRid (self s2) \<and>
     set (assigned_rids (since s s1)) \<inter> set (assigned_rids (since s2 s3)) = {}"
proof -
  note a = ff_send_rids[of E t sc s, unfolded post_def, folded assms(1)]
  note b = ff_send_rids[of E t' sc' s2, unfolded post_def, folded assms(3)]
  have m: "nextRid (self s1) \<le> nextRid (self s2)"
    unfolding assms(2) by (rule run_mono)
  have 1: "sc = None \<longrightarrow> nextRid (self s1) = nextRid (self s) \<and> assigned_rids (since s s1) = []"
    using a by (auto split: option.splits)
  have 2: "sc = Some c \<longrightarrow>
        (nextRid (self s1) = nextRid (self s) \<and> assigned_rids (since s s1) = []) \<or>
        (nextRid (self s1) = nextRid (self s) + 1 \<and>
         assigned_rids (since s s1) = map rid (simulcast_encodings c (nextRid (self s))))"
    using a by (auto split: option.splits)
  have 3: "sc = Some c \<and> fst (ff_send E t sc s) = Inr v \<longrightarrow>
        nextRid (self s1) = nextRid (self s) + 1 \<and>
        assigned_rids (since s s1) = map rid (simulcast_encodings c (nextRid (self s)))"
    using a by (auto split: option.splits)
  have 4: "map rid (simulcast_encodings c n) =
       (if truthy (low c) then [''low'' @ string_of_nat n] else []) @
       (if truthy (medium c) then [''medium'' @ string_of_nat n] else []) @
       (if truthy (high c) then [''high'' @ string_of_nat n] else [])"
    using rids_simulcast_encodings[of c n] by (simp add: layerRids_def)
  have 5: "set (assigned_rids (since s s1)) \<inter> set (assigned_rids (since s2 s3)) = {}"
  proof (cases "assigned_rids (since s s1) = [] \<or> assigned_rids (since s2 s3) = []")
    case True
    then show ?thesis by auto
  next
    case False
    from False a obtain c1 where c1: "nextRid (self s1) = nextRid (self s) + 1"
      "assigned_rids (since s s1) = layerRids c1 (nextRid (self s))"
      by (auto simp: rids_simulcast_encodings split: option.splits)
    from False b obtain c2 where c2:
      "assigned_rids (since s2 s3) = layerRids c2 (nextRid (self s2))"
      by (auto simp: rids_simulcast_encodings split: option.splits)
    from c1(1) m have "nextRid (self s) \<noteq> nextRid (self s2)" by simp
    with c1(2) c2 show ?thesis by (simp add: layerRids_disjoint)
  qed
  from 1 2 3 4 m 5 show ?thesis by (intro conjI)
qed


lemma firefox_simulcast_send: "fst (ff_send (sending [] []) videoTrack (Some threeBitrates)
                          (fresh (ff_SendHandler noParameters) ())) = Inr (noParameters Video)"
  by (simp add: ff_send_def ff_send_negotiate_def ff_send_undo_def newTransceiver_def
      threeBitrates_def simulcast_encodings_def eval_defs)

lemma firefox_first_rid: "nextRid (self (fresh (ff_SendHandler noParameters) ())) = 1"
  by (simp add: fresh_def ff_SendHandler_def)

lemma threeBitrates_set: "truthy (low threeBitrates) \<and> truthy (medium threeBitrates) \<and> truthy (high threeBitrates)"
  by (simp add: threeBitrates_def)

lemma string_of_nat_1: "string_of_nat 1 = ''1''"
  by (simp add: string_of_nat.simps char_of_def bit_simps)

theorem simulcast_rids_never_match_witness:
  "fst (ff_send (sending [] []) videoTrack (Some threeBitrates)
          (fresh (ff_SendHandler noParameters) ())) = Inr (noParameters Video) \<and>
   nextRid (self ff_sent_video) = 2 \<and>
   assigned_rids (since (fresh (ff_SendHandler noParameters) ()) ff_sent_video) =
     [''low1'', ''medium1'', ''high1''] \<and>
   nextRid (self ff_sent_video) \<le>
     nextRid (self (run (ff_send_handler (sending [] [])) [GetSenderStats videoTrack]
                      ff_sent_video)) \<and>
   set (assigned_rids (since (fresh (ff_SendHandler noParameters) ()) ff_sent_video)) \<inter>
   set (assigned_rids (since (run (ff_send_handler (sending [] [])) [GetSenderStats videoTrack]
                                ff_sent_video) ff_sent_screen)) = {}"
proof -
  note T = simulcast_rids_never_match[OF ff_sent_video_def refl ff_sent_screen_def, of threeBitrates
      "noParameters Video" 1]
  from T firefox_simulcast_send have 1: "nextRid (self ff_sent_video) =
      nextRid (self (fresh (ff_SendHandler noParameters) ())) + 1"
    and 2: "assigned_rids (since (fresh (ff_SendHandler noParameters) ()) ff_sent_video) =
      map rid (simulcast_encodings threeBitrates
        (nextRid (self (fresh (ff_SendHandler noParameters) ()))))"
    by blast+
  from T have 3: "map rid (simulcast_encodings threeBitrates 1) =
       (if truthy (low threeBitrates) then [''low'' @ string_of_nat 1] else []) @
       (if truthy (medium threeBitrates) then [''medium'' @ string_of_nat 1] else []) @
       (if truthy (high threeBitrates) then [''high'' @ string_of_nat 1] else [])"
    by blast
  from T have 4: "nextRid (self ff_sent_video) \<le>
     nextRid (self (run (ff_send_handler (sending [] [])) [GetSenderStats videoTrack]
                      ff_sent_video))"
    and 5: "set (assigned_rids (since (fresh (ff_SendHandler noParameters) ()) ff_sent_video)) \<inter>
   set (assigned_rids (since (run (ff_send_handler (sending [] [])) [GetSenderStats videoTrack]
                                ff_sent_video) ff_sent_screen)) = {}"
    by blast+
  from 1 firefox_first_rid have 6: "nextRid (self ff_sent_video) = 2" by simp
  from 2 3 firefox_first_rid threeBitrates_set string_of_nat_1
  have 7: "assigned_rids (since (fresh (ff_SendHandler noParameters) ()) ff_sent_video) =
     [''low1'', ''medium1'', ''high1'']" by simp
  from firefox_simulcast_send 6 7 4 5 show ?thesis by (intro conjI)
qed

section \<open>The opus scenario\<close>

lemma lower_opus: "map lower_char ''opus'' = ''opus''"
  by (simp add: lower_char_def)

lemma opus_match: "matchCodecs opus100 opus111 \<and> \<not> isRtx opus100 \<and> \<not> isRtx opus111"
  by (simp add: matchCodecs_def isRtx_def opus100_def opus111_def lower_opus)

lemma opus_no_rtx: "rtxFor (onlyCodec opus100) pt = None \<and> rtxFor (onlyCodec opus111) pt = None"
  using opus_match by (simp add: rtxFor_def onlyCodec_def)

lemma opus_fields:
  "preferredPayloadType opus100 = 100" "preferredPayloadType opus111 = 111"
  "kind opus100 = Audio" "name opus100 = ''opus''" "mimeType opus100 = ''audio/opus''"
  "clockRate opus100 = 48000" "channels opus100 = Some 2" "rtcpFeedback opus100 = []"
  "rtcpFeedback opus111 = [\<lparr>fb_type = ''transport-cc'', fb_parameter = None\<rparr>]"
  "parameters opus100 \<noteq> parameters opus111"
  by (simp_all add: opus100_def opus111_def)

lemma onlyCodec_fields: "codecs (onlyCodec c) = [c]" "headerExtensions (onlyCodec c) = []"
  by (simp_all add: onlyCodec_def)

lemma opus_extended:
  "computeExtendedCapabilities (onlyCodec opus100) (onlyCodec opus111) =
     \<lparr>x_codecs = [\<lparr>localCodec = opus100, remoteCodec = opus111, sendPayloadType = 100,
                   recvPayloadType = 111, sendRtxPayloadType = None,
                   recvRtxPayloadType = None\<rparr>],
      x_headerExtensions = []\<rparr>"
  using opus_match
  by (simp add: computeExtendedCapabilities_def matchMediaCodecs_def matchHeaderExtensions_def
      pairRtx_def opus_no_rtx onlyCodec_fields opus_fields)

text \<open>
  C7. With a local capability set holding the one opus codec of payload type 100
  (48000 Hz, 2 channels, no feedback) and a remote set holding opus with payload type
  111 and feedback \<open>transport-cc\<close>, \<open>computeExtendedCapabilities\<close> yields exactly one
  extended codec, with send payload type 100 and receive payload type 111, and the
  sending projection for audio is the one codec entry with payload type 100 and the
  local entry's feedback (none) and parameters, not the remote entry's. For every
  extended capability set and kind, the sending projection takes each codec's feedback,
  parameters and payload type from the local side.
\<close>

theorem opus_scenario:
  "x_codecs (computeExtendedCapabilities (onlyCodec opus100) (onlyCodec opus111)) =
     [\<lparr>localCodec = opus100, remoteCodec = opus111, sendPayloadType = 100,
       recvPayloadType = 111, sendRtxPayloadType = None, recvRtxPayloadType = None\<rparr>] \<and>
   rp_codecs (getSendingRtpParameters Audio
       (computeExtendedCapabilities (onlyCodec opus100) (onlyCodec opus111))) =
     [\<lparr>rc_name = ''opus'', rc_mimeType = ''audio/opus'', rc_clockRate = 48000,
       rc_payloadType = 100, rc_channels = Some 2, rc_rtcpFeedback = rtcpFeedback opus100,
       rc_parameters = parameters opus100\<rparr>] \<and>
   rtcpFeedback opus100 = [] \<and>
   rtcpFeedback opus111 = [\<lparr>fb_type = ''transport-cc'', fb_parameter = None\<rparr>] \<and>
   parameters opus100 \<noteq> parameters opus111 \<and>
   map rc_rtcpFeedback (rp_codecs (getSendingRtpParameters k extended)) =
     map (\<lambda>x. rtcpFeedback (localCodec x))
         (filter (\<lambda>x. kind (localCodec x) = k) (x_codecs extended)) \<and>
   map rc_parameters (rp_codecs (getSendingRtpParameters k extended)) =
     map (\<lambda>x. parameters (localCodec x))
         (filter (\<lambda>x. kind (localCodec x) = k) (x_codecs extended)) \<and>
   map rc_payloadType (rp_codecs (getSendingRtpParameters k extended)) =
     map sendPayloadType (filter (\<lambda>x. kind (localCodec x) = k) (x_codecs extended))"
  by (simp add: opus_extended getSendingRtpParameters_def comp_def opus_fields)

section \<open>ICE restart\<close>

lemma post_await_ok:
  "fst (exec E c (world s)) = None \<Longrightarrow>
   post (await E c s) Q = Q (Inr ()) (logged c None True (snd (exec E c (world s))) s)"
  by (cases "exec E c (world s)") (simp add: post_def await_def)

lemma send_restartIce_pending:
  "\<not> transportReady (self s) \<Longrightarrow>
   post (send_restartIce E ice s) (\<lambda>r s'. self s' = self s \<and>
      map call (since s s') = [UpdateTransportRemoteIceParameters ice])"
  unfolding send_restartIce_def
  by (auto simp: post_simps since_def intro!: post_intros)

lemma ff_recv_restartIce_pending:
  "\<not> transportReady (self s) \<Longrightarrow>
   post (ff_recv_restartIce E ice s) (\<lambda>r s'. self s' = self s \<and>
      map call (since s s') = [UpdateTransportRemoteIceParameters ice])"
  unfolding ff_recv_restartIce_def
  by (auto simp: post_simps since_def intro!: post_intros)

lemma sf_recv_restartIce_pending:
  "\<not> transportReady (self s) \<Longrightarrow>
   post (sf_recv_restartIce E ice s) (\<lambda>r s'. self s' = self s \<and>
      map call (since s s') = [UpdateTransportRemoteIceParameters ice])"
  unfolding sf_recv_restartIce_def
  by (auto simp: post_simps since_def intro!: post_intros)

lemma ff_send_ready:
  "post (ff_send E t sc s) (\<lambda>r s'. isl r \<or> transportReady (self s'))"
  unfolding ff_send_def ff_send_negotiate_def ff_send_undo_def setupTransport_def
  by (auto simp: post_simps intro!: post_intros split: option.splits)

lemma sf_send_ready:
  "post (sf_send E t sc s) (\<lambda>r s'. isl r \<or> transportReady (self s'))"
  unfolding sf_send_def sf_send_negotiate_def sf_send_undo_def setupTransport_def
  by (auto simp: post_simps intro!: post_intros split: option.splits)

lemma ff_receive_ready:
  "post (ff_receive E i k p s) (\<lambda>r s'. isl r \<or> transportReady (self s'))"
  unfolding ff_receive_def setupTransport_def Let_def
  by (auto simp: post_simps intro!: post_intros split: option.splits)

lemma sf_receive_ready:
  "post (sf_receive E i k p s) (\<lambda>r s'. isl r \<or> transportReady (self s'))"
  unfolding sf_receive_def setupTransport_def Let_def transportUpdated_def
  by (auto simp: post_simps intro!: post_intros split: option.splits list.splits)

lemma new_handlers_not_ready:
  "\<not> transportReady (ff_SendHandler ps)" "\<not> transportReady (ff_RecvHandler ps)"
  "\<not> transportReady (sf_SendHandler ps)" "\<not> transportReady (sf_RecvHandler ps)"
  by (simp_all add: ff_SendHandler_def ff_RecvHandler_def sf_SendHandler_def sf_RecvHandler_def)


lemma send_restartIce_ready:
  "transportReady (self s) \<Longrightarrow> \<forall>c w. fst (exec E c w) = None \<Longrightarrow>
   post (send_restartIce E ice s) (\<lambda>r s'. self s' = self s \<and>
      take 1 (since s s') =
        [\<lparr>call = UpdateTransportRemoteIceParameters ice, outcome = None, awaited = True\<rparr>] \<and>
      map call (take 2 (since s s')) = [UpdateTransportRemoteIceParameters ice, CreateOffer True])"
  unfolding send_restartIce_def
  by (auto simp: post_simps post_await_ok since_def intro!: post_detached)

lemma ff_recv_restartIce_ready:
  "transportReady (self s) \<Longrightarrow> \<forall>c w. fst (exec E c w) = None \<Longrightarrow>
   post (ff_recv_restartIce E ice s) (\<lambda>r s'. self s' = self s \<and>
      take 3 (since s s') =
        [\<lparr>call = UpdateTransportRemoteIceParameters ice, outcome = None, awaited = True\<rparr>,
         \<lparr>call = CreateOfferSdp, outcome = None, awaited = True\<rparr>,
         \<lparr>call = SetRemoteDescription Offer, outcome = None, awaited = True\<rparr>] \<and>
      map call (take 4 (since s s')) =
        [UpdateTransportRemoteIceParameters ice, CreateOfferSdp, SetRemoteDescription Offer,
         CreateAnswer])"
  unfolding ff_recv_restartIce_def
  by (auto simp: post_simps post_await_ok since_def intro!: post_detached)

lemma sf_recv_restartIce_ready:
  "transportReady (self s) \<Longrightarrow> \<forall>c w. fst (exec E c w) = None \<Longrightarrow>
   post (sf_recv_restartIce E ice s) (\<lambda>r s'. r = Inr () \<and> self s' = self s \<and>
      since s s' =
        [\<lparr>call = UpdateTransportRemoteIceParameters ice, outcome = None, awaited = True\<rparr>,
         \<lparr>call = CreateOfferSdp, outcome = None, awaited = True\<rparr>,
         \<lparr>call = SetRemoteDescription Offer, outcome = None, awaited = True\<rparr>,
         \<lparr>call = CreateAnswer, outcome = None, awaited = True\<rparr>,
         \<lparr>call = SetLocalDescription Answer, outcome = None, awaited = True\<rparr>])"
  unfolding sf_recv_restartIce_def
  by (auto simp: post_simps post_await_ok since_def)

lemma ff_send_flag:
  "post (ff_send E t sc s) (\<lambda>r s'.
     transportReady (self s') = (transportReady (self s) \<or> acknowledged (since s s') \<noteq> []))"
  unfolding ff_send_def ff_send_negotiate_def ff_send_undo_def setupTransport_def
  by (auto simp: post_simps since_def acknowledged_def connects_def
      intro!: post_intros split: option.splits)

lemma sf_send_flag:
  "post (sf_send E t sc s) (\<lambda>r s'.
     transportReady (self s') = (transportReady (self s) \<or> acknowledged (since s s') \<noteq> []))"
  unfolding sf_send_def sf_send_negotiate_def sf_send_undo_def setupTransport_def
  by (auto simp: post_simps since_def acknowledged_def connects_def
      intro!: post_intros split: option.splits)

lemma ff_receive_flag:
  "post (ff_receive E i k p s) (\<lambda>r s'.
     transportReady (self s') = (transportReady (self s) \<or> acknowledged (since s s') \<noteq> []))"
  unfolding ff_receive_def setupTransport_def Let_def
  by (auto simp: post_simps since_def acknowledged_def connects_def
      intro!: post_intros split: option.splits)

lemma sf_receive_flag:
  "post (sf_receive E i k p s) (\<lambda>r s'.
     transportReady (self s') = (transportReady (self s) \<or> acknowledged (since s s') \<noteq> []))"
  unfolding sf_receive_def setupTransport_def Let_def transportUpdated_def
  by (auto simp: post_simps since_def acknowledged_def connects_def
      intro!: post_intros split: option.splits list.splits)

text \<open>
  C5, as stated, fails: the gate is the \<open>_transportReady\<close> flag, not the completion of
  a round. \<open>send()\<close> sets the flag in \<open>_setupTransport\<close>, after \<open>setLocalDescription\<close> and
  before \<open>setRemoteDescription\<close>. Here the only \<open>send()\<close> of a new Firefox60 handler fails
  at \<open>setRemoteDescription\<close>, so no round has completed and no track is registered, yet the
  flag is set and \<open>restartIce\<close> goes on to \<open>createOffer\<close>, \<open>setLocalDescription\<close> and
  \<open>setRemoteDescription\<close>.
\<close>

theorem restartIce_after_failed_first_round:
  "isl (fst (ff_send (refusing Answer) audioTrack None (fresh (ff_SendHandler noParameters) ()))) \<and>
   \<lparr>call = SetRemoteDescription Answer, outcome = Some ''failed'', awaited = True\<rparr>
     \<in> set (trace ff_first_round_failed) \<and>
   tracks (self ff_first_round_failed) = {} \<and>
   transportReady (self ff_first_round_failed) \<and>
   map call (since ff_first_round_failed
      (snd (send_restartIce (sending [] []) someIce ff_first_round_failed))) =
     [UpdateTransportRemoteIceParameters someIce, CreateOffer True,
      SetLocalDescription PromiseOfOffer, ParseLocalSdp, CreateAnswerSdp,
      SetRemoteDescription Answer]"
  by (simp add: ff_send_def ff_send_negotiate_def ff_send_undo_def refusing_def newTransceiver_def
      send_restartIce_def ff_first_round_failed_def eval_defs)

text \<open>
  C5, amended. The gate of \<open>restartIce\<close> is the \<open>_transportReady\<close> flag. A new handler
  has it unset; a \<open>send()\<close> or \<open>receive()\<close> sets it exactly when its \<open>@connect\<close>
  notification is accepted (so every call that succeeds leaves it set), and otherwise
  leaves it as it was. \<open>restartIce\<close> first hands the new remote ICE parameters to the
  SDP builder. While the flag is unset that is the only external call (no
  \<open>createOffer\<close>, \<open>createAnswer\<close>, \<open>setLocalDescription\<close> or \<open>setRemoteDescription\<close>) and
  the handler's fields are unchanged. Once the flag is set, and when no external call
  fails, \<open>restartIce\<close> goes on to renegotiate without changing the handler's fields:
  the send handlers of both engines call \<open>createOffer({ iceRestart: true })\<close> after the
  update; the Firefox60 receive handler waits for the rebuilt offer and its
  \<open>setRemoteDescription\<close> and then calls \<open>createAnswer\<close>; the Safari11 receive handler
  waits for every step of the round (offer, \<open>setRemoteDescription\<close>, \<open>createAnswer\<close>,
  \<open>setLocalDescription\<close> of the answer) and returns normally. (What the other three
  methods do after their \<open>createOffer\<close> or \<open>createAnswer\<close> call is not part of the
  statement.)
\<close>

theorem restartIce_gated_by_transportReady:
  "\<not> transportReady (ff_SendHandler ps) \<and>
   \<not> transportReady (ff_RecvHandler ps) \<and>
   \<not> transportReady (sf_SendHandler ps) \<and>
   \<not> transportReady (sf_RecvHandler ps) \<and>
   (fst (ff_send E3 t3 sc3 s3) = Inr v3 \<longrightarrow>
      transportReady (self (snd (ff_send E3 t3 sc3 s3)))) \<and>
   (fst (sf_send E4 t4 sc4 s4) = Inr v4 \<longrightarrow>
      transportReady (self (snd (sf_send E4 t4 sc4 s4)))) \<and>
   (fst (ff_receive E5 i5 k5 p5 s5) = Inr v5 \<longrightarrow>
      transportReady (self (snd (ff_receive E5 i5 k5 p5 s5)))) \<and>
   (fst (sf_receive E6 i6 k6 p6 s6) = Inr v6 \<longrightarrow>
      transportReady (self (snd (sf_receive E6 i6 k6 p6 s6)))) \<and>
   (transportReady (self (snd (ff_send E3 t3 sc3 s3))) =
      (transportReady (self s3) \<or> acknowledged (since s3 (snd (ff_send E3 t3 sc3 s3))) \<noteq> [])) \<and>
   (transportReady (self (snd (sf_send E4 t4 sc4 s4))) =
      (transportReady (self s4) \<or> acknowledged (since s4 (snd (sf_send E4 t4 sc4 s4))) \<noteq> [])) \<and>
   (transportReady (self (snd (ff_receive E5 i5 k5 p5 s5))) =
      (transportReady (self s5) \<or> acknowledged (since s5 (snd (ff_receive E5 i5 k5 p5 s5))) \<noteq> [])) \<and>
   (transportReady (self (snd (sf_receive E6 i6 k6 p6 s6))) =
      (transportReady (self s6) \<or> acknowledged (since s6 (snd (sf_receive E6 i6 k6 p6 s6))) \<noteq> [])) \<and>
   (\<not> transportReady (self s) \<longrightarrow>
      self (snd (send_restartIce E ice s)) = self s \<and>
      map call (since s (snd (send_restartIce E ice s))) =
        [UpdateTransportRemoteIceParameters ice]) \<and>
   (\<not> transportReady (self s1) \<longrightarrow>
      self (snd (ff_recv_restartIce E1 ice s1)) = self s1 \<and>
      map call (since s1 (snd (ff_recv_restartIce E1 ice s1))) =
        [UpdateTransportRemoteIceParameters ice]) \<and>
   (\<not> transportReady (self s2) \<longrightarrow>
      self (snd (sf_recv_restartIce E2 ice s2)) = self s2 \<and>
      map call (since s2 (snd (sf_recv_restartIce E2 ice s2))) =
        [UpdateTransportRemoteIceParameters ice]) \<and>
   (transportReady (self s) \<and> (\<forall>c w. fst (exec E c w) = None) \<longrightarrow>
      self (snd (send_restartIce E ice s)) = self s \<and>
      take 1 (since s (snd (send_restartIce E ice s))) =
        [\<lparr>call = UpdateTransportRemoteIceParameters ice, outcome = None, awaited = True\<rparr>] \<and>
      map call (take 2 (since s (snd (send_restartIce E ice s)))) =
        [UpdateTransportRemoteIceParameters ice, CreateOffer True]) \<and>
   (transportReady (self s1) \<and> (\<forall>c w. fst (exec E1 c w) = None) \<longrightarrow>
      self (snd (ff_recv_restartIce E1 ice s1)) = self s1 \<and>
      take 3 (since s1 (snd (ff_recv_restartIce E1 ice s1))) =
        [\<lparr>call = UpdateTransportRemoteIceParameters ice, outcome = None, awaited = True\<rparr>,
         \<lparr>call = CreateOfferSdp, outcome = None, awaited = True\<rparr>,
         \<lparr>call = SetRemoteDescription Offer, outcome = None, awaited = True\<rparr>] \<and>
      map call (take 4 (since s1 (snd (ff_recv_restartIce E1 ice s1)))) =
        [UpdateTransportRemoteIceParameters ice, CreateOfferSdp, SetRemoteDescription Offer,
         CreateAnswer]) \<and>
   (transportReady (self s2) \<and> (\<forall>c w. fst (exec E2 c w) = None) \<longrightarrow>
      fst (sf_recv_restartIce E2 ice s2) = Inr () \<and>
      self (snd (sf_recv_restartIce E2 ice s2)) = self s2 \<and>
      since s2 (snd (sf_recv_restartIce E2 ice s2)) =
        [\<lparr>call = UpdateTransportRemoteIceParameters ice, outcome = None, awaited = True\<rparr>,
         \<lparr>call = CreateOfferSdp, outcome = None, awaited = True\<rparr>,
         \<lparr>call = SetRemoteDescription Offer, outcome = None, awaited = True\<rparr>,
         \<lparr>call = CreateAnswer, outcome = None, awaited = True\<rparr>,
         \<lparr>call = SetLocalDescription Answer, outcome = None, awaited = True\<rparr>])"
proof -
  have ok0: "fst (ff_send E3 t3 sc3 s3) = Inr v3 \<longrightarrow>
      transportReady (self (snd (ff_send E3 t3 sc3 s3)))"
    using ff_send_ready[of E3 t3 sc3 s3] by (auto simp: post_def)
  have ok1: "fst (sf_send E4 t4 sc4 s4) = Inr v4 \<longrightarrow>
      transportReady (self (snd (sf_send E4 t4 sc4 s4)))"
    using sf_send_ready[of E4 t4 sc4 s4] by (auto simp: post_def)
  have ok2: "fst (ff_receive E5 i5 k5 p5 s5) = Inr v5 \<longrightarrow>
      transportReady (self (snd (ff_receive E5 i5 k5 p5 s5)))"
    using ff_receive_ready[of E5 i5 k5 p5 s5] by (auto simp: post_def)
  have ok3: "fst (sf_receive E6 i6 k6 p6 s6) = Inr v6 \<longrightarrow>
      transportReady (self (snd (sf_receive E6 i6 k6 p6 s6)))"
    using sf_receive_ready[of E6 i6 k6 p6 s6] by (auto simp: post_def)
  have fl0: "transportReady (self (snd (ff_send E3 t3 sc3 s3))) =
      (transportReady (self s3) \<or> acknowledged (since s3 (snd (ff_send E3 t3 sc3 s3))) \<noteq> [])"
    using ff_send_flag[of E3 t3 sc3 s3] by (simp add: post_def)
  have fl1: "transportReady (self (snd (sf_send E4 t4 sc4 s4))) =
      (transportReady (self s4) \<or> acknowledged (since s4 (snd (sf_send E4 t4 sc4 s4))) \<noteq> [])"
    using sf_send_flag[of E4 t4 sc4 s4] by (simp add: post_def)
  have fl2: "transportReady (self (snd (ff_receive E5 i5 k5 p5 s5))) =
      (transportReady (self s5) \<or> acknowledged (since s5 (snd (ff_receive E5 i5 k5 p5 s5))) \<noteq> [])"
    using ff_receive_flag[of E5 i5 k5 p5 s5] by (simp add: post_def)
  have fl3: "transportReady (self (snd (sf_receive E6 i6 k6 p6 s6))) =
      (transportReady (self s6) \<or> acknowledged (since s6 (snd (sf_receive E6 i6 k6 p6 s6))) \<noteq> [])"
    using sf_receive_flag[of E6 i6 k6 p6 s6] by (simp add: post_def)
  have pe0: "\<not> transportReady (self s) \<longrightarrow>
      self (snd (send_restartIce E ice s)) = self s \<and>
      map call (since s (snd (send_restartIce E ice s))) =
        [UpdateTransportRemoteIceParameters ice]"
    using send_restartIce_pending[of s E ice] by (simp add: post_def)
  have pe1: "\<not> transportReady (self s1) \<longrightarrow>
      self (snd (ff_recv_restartIce E1 ice s1)) = self s1 \<and>
      map call (since s1 (snd (ff_recv_restartIce E1 ice s1))) =
        [UpdateTransportRemoteIceParameters ice]"
    using ff_recv_restartIce_pending[of s1 E1 ice] by (simp add: post_def)
  have pe2: "\<not> transportReady (self s2) \<longrightarrow>
      self (snd (sf_recv_restartIce E2 ice s2)) = self s2 \<and>
      map call (since s2 (snd (sf_recv_restartIce E2 ice s2))) =
        [UpdateTransportRemoteIceParameters ice]"
    using sf_recv_restartIce_pending[of s2 E2 ice] by (simp add: post_def)
  have re0: "transportReady (self s) \<and> (\<forall>c w. fst (exec E c w) = None) \<longrightarrow>
      self (snd (send_restartIce E ice s)) = self s \<and>
      take 1 (since s (snd (send_restartIce E ice s))) =
        [\<lparr>call = UpdateTransportRemoteIceParameters ice, outcome = None, awaited = True\<rparr>] \<and>
      map call (take 2 (since s (snd (send_restartIce E ice s)))) =
        [UpdateTransportRemoteIceParameters ice, CreateOffer True]"
    using send_restartIce_ready[of s E ice] by (simp add: post_def)
  have re1: "transportReady (self s1) \<and> (\<forall>c w. fst (exec E1 c w) = None) \<longrightarrow>
      self (snd (ff_recv_restartIce E1 ice s1)) = self s1 \<and>
      take 3 (since s1 (snd (ff_recv_restartIce E1 ice s1))) =
        [\<lparr>call = UpdateTransportRemoteIceParameters ice, outcome = None, awaited = True\<rparr>,
         \<lparr>call = CreateOfferSdp, outcome = None, awaited = True\<rparr>,
         \<lparr>call = SetRemoteDescription Offer, outcome = None, awaited = True\<rparr>] \<and>
      map call (take 4 (since s1 (snd (ff_recv_restartIce E1 ice s1)))) =
        [UpdateTransportRemoteIceParameters ice, CreateOfferSdp, SetRemoteDescription Offer,
         CreateAnswer]"
    using ff_recv_restartIce_ready[of s1 E1 ice] by (simp add: post_def)
  have re2: "transportReady (self s2) \<and> (\<forall>c w. fst (exec E2 c w) = None) \<longrightarrow>
      fst (sf_recv_restartIce E2 ice s2) = Inr () \<and>
      self (snd (sf_recv_restartIce E2 ice s2)) = self s2 \<and>
      since s2 (snd (sf_recv_restartIce E2 ice s2)) =
        [\<lparr>call = UpdateTransportRemoteIceParameters ice, outcome = None, awaited = True\<rparr>,
         \<lparr>call = CreateOfferSdp, outcome = None, awaited = True\<rparr>,
         \<lparr>call = SetRemoteDescription Offer, outcome = None, awaited = True\<rparr>,
         \<lparr>call = CreateAnswer, outcome = None, awaited = True\<rparr>,
         \<lparr>call = SetLocalDescription Answer, outcome = None, awaited = True\<rparr>]"
    using sf_recv_restartIce_ready[of s2 E2 ice] by (simp add: post_def)
  from new_handlers_not_ready[of ps] ok0 ok1 ok2 ok3 fl0 fl1 fl2 fl3 pe0 pe1 pe2 re0 re1 re2 show ?thesis
    by (intro conjI)
qed

lemma never_fails: "\<forall>c w. fst (exec (sending sns []) c w) = None"
  "\<forall>c w. fst (exec twoSources c w) = None"
  by (simp_all add: sending_def twoSources_def scripted_def)

lemma safari_first_send:
  "fst (sf_send (sending [] []) videoTrack None (fresh (sf_SendHandler noParameters) ())) =
     Inr (noParameters Video)"
  by (simp add: sf_send_def sf_send_negotiate_def sf_send_undo_def getTrackById_def eval_defs)

lemma firefox_first_receive:
  "fst (ff_receive twoSources ''a'' Audio opusConsumerRtp (fresh (ff_RecvHandler noParameters) ())) =
     Inr \<lparr>track_id = ''audio-a'', track_kind = Audio\<rparr>"
  by (simp add: ff_receive_def eval_defs)

lemma safari_first_receive:
  "fst (sf_receive twoSources ''a'' Audio opusConsumerRtp (fresh (sf_RecvHandler noParameters) ())) =
     Inr \<lparr>track_id = ''audio-a'', track_kind = Audio\<rparr>"
  by (simp add: sf_receive_def eval_defs)


theorem restartIce_gated_by_transportReady_witness:
  "\<not> transportReady (self (fresh (ff_SendHandler noParameters) ())) \<and>
   \<not> transportReady (self (fresh (ff_RecvHandler noParameters) ())) \<and>
   \<not> transportReady (self (fresh (sf_RecvHandler noParameters) ())) \<and>
   self (snd (send_restartIce (sending [] []) someIce (fresh (ff_SendHandler noParameters) ()))) = self (fresh (ff_SendHandler noParameters) ()) \<and>
      map call (since (fresh (ff_SendHandler noParameters) ()) (snd (send_restartIce (sending [] []) someIce (fresh (ff_SendHandler noParameters) ())))) =
        [UpdateTransportRemoteIceParameters someIce] \<and>
   self (snd (ff_recv_restartIce twoSources someIce (fresh (ff_RecvHandler noParameters) ()))) = self (fresh (ff_RecvHandler noParameters) ()) \<and>
      map call (since (fresh (ff_RecvHandler noParameters) ()) (snd (ff_recv_restartIce twoSources someIce (fresh (ff_RecvHandler noParameters) ())))) =
        [UpdateTransportRemoteIceParameters someIce] \<and>
   self (snd (sf_recv_restartIce twoSources someIce (fresh (sf_RecvHandler noParameters) ()))) = self (fresh (sf_RecvHandler noParameters) ()) \<and>
      map call (since (fresh (sf_RecvHandler noParameters) ()) (snd (sf_recv_restartIce twoSources someIce (fresh (sf_RecvHandler noParameters) ())))) =
        [UpdateTransportRemoteIceParameters someIce] \<and>
   transportReady (self ff_sent_video) \<and>
   transportReady (self sf_sent_video) \<and>
   transportReady (self ff_receiving_a) \<and>
   transportReady (self sf_receiving_a) \<and>
   (\<forall>c w. fst (exec (sending [] []) c w) = None) \<and>
   (\<forall>c w. fst (exec twoSources c w) = None) \<and>
   self (snd (send_restartIce (sending [] []) someIce ff_sent_video)) = self ff_sent_video \<and>
      take 1 (since ff_sent_video (snd (send_restartIce (sending [] []) someIce ff_sent_video))) =
        [\<lparr>call = UpdateTransportRemoteIceParameters someIce, outcome = None, awaited = True\<rparr>] \<and>
      map call (take 2 (since ff_sent_video (snd (send_restartIce (sending [] []) someIce ff_sent_video)))) =
        [UpdateTransportRemoteIceParameters someIce, CreateOffer True] \<and>
   self (snd (send_restartIce (sending [] []) someIce sf_sent_video)) = self sf_sent_video \<and>
      take 1 (since sf_sent_video (snd (send_restartIce (sending [] []) someIce sf_sent_video))) =
        [\<lparr>call = UpdateTransportRemoteIceParameters someIce, outcome = None, awaited = True\<rparr>] \<and>
      map call (take 2 (since sf_sent_video (snd (send_restartIce (sending [] []) someIce sf_sent_video)))) =
        [UpdateTransportRemoteIceParameters someIce, CreateOffer True] \<and>
   self (snd (ff_recv_restartIce twoSources someIce ff_receiving_a)) = self ff_receiving_a \<and>
      take 3 (since ff_receiving_a (snd (ff_recv_restartIce twoSources someIce ff_receiving_a))) =
        [\<lparr>call = UpdateTransportRemoteIceParameters someIce, outcome = None, awaited = True\<rparr>,
         \<lparr>call = CreateOfferSdp, outcome = None, awaited = True\<rparr>,
         \<lparr>call = SetRemoteDescription Offer, outcome = None, awaited = True\<rparr>] \<and>
      map call (take 4 (since ff_receiving_a (snd (ff_recv_restartIce twoSources someIce ff_receiving_a)))) =
        [UpdateTransportRemoteIceParameters someIce, CreateOfferSdp, SetRemoteDescription Offer,
         CreateAnswer] \<and>
   fst (sf_recv_restartIce twoSources someIce sf_receiving_a) = Inr () \<and>
      self (snd (sf_recv_restartIce twoSources someIce sf_receiving_a)) = self sf_receiving_a \<and>
      since sf_receiving_a (snd (sf_recv_restartIce twoSources someIce sf_receiving_a)) =
        [\<lparr>call = UpdateTransportRemoteIceParameters someIce, outcome = None, awaited = True\<rparr>,
         \<lparr>call = CreateOfferSdp, outcome = None, awaited = True\<rparr>,
         \<lparr>call = SetRemoteDescription Offer, outcome = None, awaited = True\<rparr>,
         \<lparr>call = CreateAnswer, outcome = None, awaited = True\<rparr>,
         \<lparr>call = SetLocalDescription Answer, outcome = None, awaited = True\<rparr>]"
proof -
  note N = restartIce_gated_by_transportReady[where ps = noParameters
      and s = "fresh (ff_SendHandler noParameters) ()" and E = "sending [] []" and ice = someIce
      and ?s1.0 = "fresh (ff_RecvHandler noParameters) ()" and ?E1.0 = twoSources
      and ?s2.0 = "fresh (sf_RecvHandler noParameters) ()" and ?E2.0 = twoSources
      and ?E3.0 = "sending [] []" and ?t3.0 = videoTrack and ?sc3.0 = "Some threeBitrates"
      and ?s3.0 = "fresh (ff_SendHandler noParameters) ()" and ?v3.0 = "noParameters Video"
      and ?E4.0 = "sending [] []" and ?t4.0 = videoTrack and ?sc4.0 = None
      and ?s4.0 = "fresh (sf_SendHandler noParameters) ()" and ?v4.0 = "noParameters Video"
      and ?E5.0 = twoSources and ?i5.0 = "''a''" and ?k5.0 = Audio and ?p5.0 = opusConsumerRtp
      and ?s5.0 = "fresh (ff_RecvHandler noParameters) ()"
      and ?v5.0 = "\<lparr>track_id = ''audio-a'', track_kind = Audio\<rparr>"
      and ?E6.0 = twoSources and ?i6.0 = "''a''" and ?k6.0 = Audio and ?p6.0 = opusConsumerRtp
      and ?s6.0 = "fresh (sf_RecvHandler noParameters) ()"
      and ?v6.0 = "\<lparr>track_id = ''audio-a'', track_kind = Audio\<rparr>",
      folded ff_sent_video_def sf_sent_video_def ff_receiving_a_def sf_receiving_a_def]
  note R = restartIce_gated_by_transportReady[where ps = noParameters
      and s = "ff_sent_video" and E = "sending [] []" and ice = someIce
      and ?s1.0 = "ff_receiving_a" and ?E1.0 = twoSources
      and ?s2.0 = "sf_receiving_a" and ?E2.0 = twoSources
      and ?E3.0 = "sending [] []" and ?t3.0 = videoTrack and ?sc3.0 = "Some threeBitrates"
      and ?s3.0 = "fresh (ff_SendHandler noParameters) ()" and ?v3.0 = "noParameters Video"
      and ?E4.0 = "sending [] []" and ?t4.0 = videoTrack and ?sc4.0 = None
      and ?s4.0 = "fresh (sf_SendHandler noParameters) ()" and ?v4.0 = "noParameters Video"
      and ?E5.0 = twoSources and ?i5.0 = "''a''" and ?k5.0 = Audio and ?p5.0 = opusConsumerRtp
      and ?s5.0 = "fresh (ff_RecvHandler noParameters) ()"
      and ?v5.0 = "\<lparr>track_id = ''audio-a'', track_kind = Audio\<rparr>"
      and ?E6.0 = twoSources and ?i6.0 = "''a''" and ?k6.0 = Audio and ?p6.0 = opusConsumerRtp
      and ?s6.0 = "fresh (sf_RecvHandler noParameters) ()"
      and ?v6.0 = "\<lparr>track_id = ''audio-a'', track_kind = Audio\<rparr>"]
  note S = restartIce_gated_by_transportReady[where ps = noParameters
      and s = "sf_sent_video" and E = "sending [] []" and ice = someIce
      and ?s1.0 = "ff_receiving_a" and ?E1.0 = twoSources
      and ?s2.0 = "sf_receiving_a" and ?E2.0 = twoSources
      and ?E3.0 = "sending [] []" and ?t3.0 = videoTrack and ?sc3.0 = "Some threeBitrates"
      and ?s3.0 = "fresh (ff_SendHandler noParameters) ()" and ?v3.0 = "noParameters Video"
      and ?E4.0 = "sending [] []" and ?t4.0 = videoTrack and ?sc4.0 = None
      and ?s4.0 = "fresh (sf_SendHandler noParameters) ()" and ?v4.0 = "noParameters Video"
      and ?E5.0 = twoSources and ?i5.0 = "''a''" and ?k5.0 = Audio and ?p5.0 = opusConsumerRtp
      and ?s5.0 = "fresh (ff_RecvHandler noParameters) ()"
      and ?v5.0 = "\<lparr>track_id = ''audio-a'', track_kind = Audio\<rparr>"
      and ?E6.0 = twoSources and ?i6.0 = "''a''" and ?k6.0 = Audio and ?p6.0 = opusConsumerRtp
      and ?s6.0 = "fresh (sf_RecvHandler noParameters) ()"
      and ?v6.0 = "\<lparr>track_id = ''audio-a'', track_kind = Audio\<rparr>"]
  have n0: "\<not> transportReady (self (fresh (ff_SendHandler noParameters) ()))"
    using N[THEN conjunct1] by (simp add: fresh_def)
  have n1: "\<not> transportReady (self (fresh (ff_RecvHandler noParameters) ()))"
    using N[THEN conjunct2, THEN conjunct1] by (simp add: fresh_def)
  have n2: "\<not> transportReady (self (fresh (sf_RecvHandler noParameters) ()))"
    using N[THEN conjunct2, THEN conjunct2, THEN conjunct2, THEN conjunct1] by (simp add: fresh_def)
  have p0: "self (snd (send_restartIce (sending [] []) someIce (fresh (ff_SendHandler noParameters) ()))) = self (fresh (ff_SendHandler noParameters) ()) \<and>
      map call (since (fresh (ff_SendHandler noParameters) ()) (snd (send_restartIce (sending [] []) someIce (fresh (ff_SendHandler noParameters) ())))) =
        [UpdateTransportRemoteIceParameters someIce]"
    by (rule mp[OF N[THEN conjunct2, THEN conjunct2, THEN conjunct2, THEN conjunct2, THEN conjunct2, THEN conjunct2, THEN conjunct2, THEN conjunct2, THEN conjunct2, THEN conjunct2, THEN conjunct2, THEN conjunct2, THEN conjunct1] n0])
  have p1: "self (snd (ff_recv_restartIce twoSources someIce (fresh (ff_RecvHandler noParameters) ()))) = self (fresh (ff_RecvHandler noParameters) ()) \<and>
      map call (since (fresh (ff_RecvHandler noParameters) ()) (snd (ff_recv_restartIce twoSources someIce (fresh (ff_RecvHandler noParameters) ())))) =
        [UpdateTransportRemoteIceParameters someIce]"
    by (rule mp[OF N[THEN conjunct2, THEN conjunct2, THEN conjunct2, THEN conjunct2, THEN conjunct2, THEN conjunct2, THEN conjunct2, THEN conjunct2, THEN conjunct2, THEN conjunct2, THEN conjunct2, THEN conjunct2, THEN conjunct2, THEN conjunct1] n1])
  have p2: "self (snd (sf_recv_restartIce twoSources someIce (fresh (sf_RecvHandler noParameters) ()))) = self (fresh (sf_RecvHandler noParameters) ()) \<and>
      map call (since (fresh (sf_RecvHandler noParameters) ()) (snd (sf_recv_restartIce twoSources someIce (fresh (sf_RecvHandler noParameters) ())))) =
        [UpdateTransportRemoteIceParameters someIce]"
    by (rule mp[OF N[THEN conjunct2, THEN conjunct2, THEN conjunct2, THEN conjunct2, THEN conjunct2, THEN conjunct2, THEN conjunct2, THEN conjunct2, THEN conjunct2, THEN conjunct2, THEN conjunct2, THEN conjunct2, THEN conjunct2, THEN conjunct2, THEN conjunct1] n2])
  have r0: "transportReady (self ff_sent_video)"
    by (rule mp[OF N[THEN conjunct2, THEN conjunct2, THEN conjunct2, THEN conjunct2, THEN conjunct1] firefox_simulcast_send])
  have r1: "transportReady (self sf_sent_video)"
    by (rule mp[OF N[THEN conjunct2, THEN conjunct2, THEN conjunct2, THEN conjunct2, THEN conjunct2, THEN conjunct1] safari_first_send])
  have r2: "transportReady (self ff_receiving_a)"
    by (rule mp[OF N[THEN conjunct2, THEN conjunct2, THEN conjunct2, THEN conjunct2, THEN conjunct2, THEN conjunct2, THEN conjunct1] firefox_first_receive])
  have r3: "transportReady (self sf_receiving_a)"
    by (rule mp[OF N[THEN conjunct2, THEN conjunct2, THEN conjunct2, THEN conjunct2, THEN conjunct2, THEN conjunct2, THEN conjunct2, THEN conjunct1] safari_first_receive])
  note f1 = never_fails(1)[of "[]"]
  note f2 = never_fails(2)
  have q0: "self (snd (send_restartIce (sending [] []) someIce ff_sent_video)) = self ff_sent_video \<and>
      take 1 (since ff_sent_video (snd (send_restartIce (sending [] []) someIce ff_sent_video))) =
        [\<lparr>call = UpdateTransportRemoteIceParameters someIce, outcome = None, awaited = True\<rparr>] \<and>
      map call (take 2 (since ff_sent_video (snd (send_restartIce (sending [] []) someIce ff_sent_video)))) =
        [UpdateTransportRemoteIceParameters someIce, CreateOffer True]"
    by (rule mp[OF R[THEN conjunct2, THEN conjunct2, THEN conjunct2, THEN conjunct2, THEN conjunct2, THEN conjunct2, THEN conjunct2, THEN conjunct2, THEN conjunct2, THEN conjunct2, THEN conjunct2, THEN conjunct2, THEN conjunct2, THEN conjunct2, THEN conjunct2, THEN conjunct1] conjI[OF r0 f1]])
  have q1: "self (snd (send_restartIce (sending [] []) someIce sf_sent_video)) = self sf_sent_video \<and>
      take 1 (since sf_sent_video (snd (send_restartIce (sending [] []) someIce sf_sent_video))) =
        [\<lparr>call = UpdateTransportRemoteIceParameters someIce, outcome = None, awaited = True\<rparr>] \<and>
      map call (take 2 (since sf_sent_video (snd (send_restartIce (sending [] []) someIce sf_sent_video)))) =
        [UpdateTransportRemoteIceParameters someIce, CreateOffer True]"
    by (rule mp[OF S[THEN conjunct2, THEN conjunct2, THEN conjunct2, THEN conjunct2, THEN conjunct2, THEN conjunct2, THEN conjunct2, THEN conjunct2, THEN conjunct2, THEN conjunct2, THEN conjunct2, THEN conjunct2, THEN conjunct2, THEN conjunct2, THEN conjunct2, THEN conjunct1] conjI[OF r1 f1]])
  have q2: "self (snd (ff_recv_restartIce twoSources someIce ff_receiving_a)) = self ff_receiving_a \<and>
      take 3 (since ff_receiving_a (snd (ff_recv_restartIce twoSources someIce ff_receiving_a))) =
        [\<lparr>call = UpdateTransportRemoteIceParameters someIce, outcome = None, awaited = True\<rparr>,
         \<lparr>call = CreateOfferSdp, outcome = None, awaited = True\<rparr>,
         \<lparr>call = SetRemoteDescription Offer, outcome = None, awaited = True\<rparr>] \<and>
      map call (take 4 (since ff_receiving_a (snd (ff_recv_restartIce twoSources someIce ff_receiving_a)))) =
        [UpdateTransportRemoteIceParameters someIce, CreateOfferSdp, SetRemoteDescription Offer,
         CreateAnswer]"
    by (rule mp[OF R[THEN conjunct2, THEN conjunct2, THEN conjunct2, THEN conjunct2, THEN conjunct2, THEN conjunct2, THEN conjunct2, THEN conjunct2, THEN conjunct2, THEN conjunct2, THEN conjunct2, THEN conjunct2, THEN conjunct2, THEN conjunct2, THEN conjunct2, THEN conjunct2, THEN conjunct1] conjI[OF r2 f2]])
  have q3: "fst (sf_recv_restartIce twoSources someIce sf_receiving_a) = Inr () \<and>
      self (snd (sf_recv_restartIce twoSources someIce sf_receiving_a)) = self sf_receiving_a \<and>
      since sf_receiving_a (snd (sf_recv_restartIce twoSources someIce sf_receiving_a)) =
        [\<lparr>call = UpdateTransportRemoteIceParameters someIce, outcome = None, awaited = True\<rparr>,
         \<lparr>call = CreateOfferSdp, outcome = None, awaited = True\<rparr>,
         \<lparr>call = SetRemoteDescription Offer, outcome = None, awaited = True\<rparr>,
         \<lparr>call = CreateAnswer, outcome = None, awaited = True\<rparr>,
         \<lparr>call = SetLocalDescription Answer, outcome = None, awaited = True\<rparr>]"
    by (rule mp[OF R[THEN conjunct2, THEN conjunct2, THEN conjunct2, THEN conjunct2, THEN conjunct2, THEN conjunct2, THEN conjunct2, THEN conjunct2, THEN conjunct2, THEN conjunct2, THEN conjunct2, THEN conjunct2, THEN conjunct2, THEN conjunct2, THEN conjunct2, THEN conjunct2, THEN conjunct2] conjI[OF r3 f2]])
  from n0 n1 n2 p0 p1 p2 r0 r1 r2 r3 f1 f2 q0 q1 q2 q3 show ?thesis
    by (elim conjE) (intro conjI; assumption)
qed

end
